theory Spec2Isabelle
  imports Main "HOL-Library.Word"
begin

unbundle bit_operations_syntax

section \<open>Legacy pixel formats (natimage.pvr.cpp, lines 34-214)\<close>

text \<open>
  \<^verbatim>\<open>enum class ePVRLegacyPixelFormat\<close> has no fixed set of values at run time: the
  reader casts the 8-bit \<^verbatim>\<open>pixelFormat\<close> field of the header to the enum, so any id can
  reach the functions below.  A format is therefore its numeric id, and every enumerator
  is a named constant with the value the enum declaration gives it.
\<close>

type_synonym ePVRLegacyPixelFormat = nat

definition ARGB_4444 :: ePVRLegacyPixelFormat where "ARGB_4444 = 0"
definition ARGB_1555 :: ePVRLegacyPixelFormat where "ARGB_1555 = 1"
definition RGB_565 :: ePVRLegacyPixelFormat where "RGB_565 = 2"
definition RGB_555 :: ePVRLegacyPixelFormat where "RGB_555 = 3"
definition RGB_888 :: ePVRLegacyPixelFormat where "RGB_888 = 4"
definition ARGB_8888 :: ePVRLegacyPixelFormat where "ARGB_8888 = 5"
definition ARGB_8332 :: ePVRLegacyPixelFormat where "ARGB_8332 = 6"
definition I8 :: ePVRLegacyPixelFormat where "I8 = 7"
definition AI88 :: ePVRLegacyPixelFormat where "AI88 = 8"
definition MONOCHROME :: ePVRLegacyPixelFormat where "MONOCHROME = 9"
definition V_Y1_U_Y0 :: ePVRLegacyPixelFormat where "V_Y1_U_Y0 = 10"
definition Y1_V_Y0_U :: ePVRLegacyPixelFormat where "Y1_V_Y0_U = 11"
definition PVRTC2 :: ePVRLegacyPixelFormat where "PVRTC2 = 12"
definition PVRTC4 :: ePVRLegacyPixelFormat where "PVRTC4 = 13"
definition ARGB_4444_SEC :: ePVRLegacyPixelFormat where "ARGB_4444_SEC = 16"
definition ARGB_1555_SEC :: ePVRLegacyPixelFormat where "ARGB_1555_SEC = 17"
definition ARGB_8888_SEC :: ePVRLegacyPixelFormat where "ARGB_8888_SEC = 18"
definition RGB_565_SEC :: ePVRLegacyPixelFormat where "RGB_565_SEC = 19"
definition RGB_555_SEC :: ePVRLegacyPixelFormat where "RGB_555_SEC = 20"
definition RGB_888_SEC :: ePVRLegacyPixelFormat where "RGB_888_SEC = 21"
definition I8_SEC :: ePVRLegacyPixelFormat where "I8_SEC = 22"
definition AI88_SEC :: ePVRLegacyPixelFormat where "AI88_SEC = 23"
definition PVRTC2_SEC :: ePVRLegacyPixelFormat where "PVRTC2_SEC = 24"
definition PVRTC4_SEC :: ePVRLegacyPixelFormat where "PVRTC4_SEC = 25"
definition BGRA_8888 :: ePVRLegacyPixelFormat where "BGRA_8888 = 26"
definition DXT1 :: ePVRLegacyPixelFormat where "DXT1 = 32"
definition DXT2 :: ePVRLegacyPixelFormat where "DXT2 = 33"
definition DXT3 :: ePVRLegacyPixelFormat where "DXT3 = 34"
definition DXT4 :: ePVRLegacyPixelFormat where "DXT4 = 35"
definition DXT5 :: ePVRLegacyPixelFormat where "DXT5 = 36"
definition RGB332 :: ePVRLegacyPixelFormat where "RGB332 = 37"
definition AL_44 :: ePVRLegacyPixelFormat where "AL_44 = 38"
definition LVU_655 :: ePVRLegacyPixelFormat where "LVU_655 = 39"
definition XLVU_8888 :: ePVRLegacyPixelFormat where "XLVU_8888 = 40"
definition QWVU_8888 :: ePVRLegacyPixelFormat where "QWVU_8888 = 41"
definition ABGR_2101010 :: ePVRLegacyPixelFormat where "ABGR_2101010 = 42"
definition ARGB_2101010 :: ePVRLegacyPixelFormat where "ARGB_2101010 = 43"
definition AWVU_2101010 :: ePVRLegacyPixelFormat where "AWVU_2101010 = 44"
definition GR_1616 :: ePVRLegacyPixelFormat where "GR_1616 = 45"
definition VU_1616 :: ePVRLegacyPixelFormat where "VU_1616 = 46"
definition ABGR_16161616 :: ePVRLegacyPixelFormat where "ABGR_16161616 = 47"
definition R_16F :: ePVRLegacyPixelFormat where "R_16F = 48"
definition GR_1616F :: ePVRLegacyPixelFormat where "GR_1616F = 49"
definition ABGR_16161616F :: ePVRLegacyPixelFormat where "ABGR_16161616F = 50"
definition R_32F :: ePVRLegacyPixelFormat where "R_32F = 51"
definition GR_3232F :: ePVRLegacyPixelFormat where "GR_3232F = 52"
definition ABGR_32323232F :: ePVRLegacyPixelFormat where "ABGR_32323232F = 53"
definition ETC :: ePVRLegacyPixelFormat where "ETC = 54"
definition A8 :: ePVRLegacyPixelFormat where "A8 = 64"
definition VU_88 :: ePVRLegacyPixelFormat where "VU_88 = 65"
definition L16 :: ePVRLegacyPixelFormat where "L16 = 66"
definition L8 :: ePVRLegacyPixelFormat where "L8 = 67"
definition AL_88 :: ePVRLegacyPixelFormat where "AL_88 = 68"
definition UYVY :: ePVRLegacyPixelFormat where "UYVY = 69"
definition YUY2 :: ePVRLegacyPixelFormat where "YUY2 = 70"

text \<open>The 55 enumerators, in declaration order.\<close>

definition ePVRLegacyPixelFormat_enumerators :: "ePVRLegacyPixelFormat list" where
  "ePVRLegacyPixelFormat_enumerators =
     [ARGB_4444, ARGB_1555, RGB_565, RGB_555, RGB_888, ARGB_8888, ARGB_8332, I8, AI88,
      MONOCHROME, V_Y1_U_Y0, Y1_V_Y0_U, PVRTC2, PVRTC4,
      ARGB_4444_SEC, ARGB_1555_SEC, ARGB_8888_SEC, RGB_565_SEC, RGB_555_SEC, RGB_888_SEC,
      I8_SEC, AI88_SEC, PVRTC2_SEC, PVRTC4_SEC, BGRA_8888,
      DXT1, DXT2, DXT3, DXT4, DXT5, RGB332, AL_44, LVU_655, XLVU_8888, QWVU_8888,
      ABGR_2101010, ARGB_2101010, AWVU_2101010, GR_1616, VU_1616, ABGR_16161616, R_16F,
      GR_1616F, ABGR_16161616F, R_32F, GR_3232F, ABGR_32323232F, ETC,
      A8, VU_88, L16, L8, AL_88, UYVY, YUY2]"

datatype ePVRLegacyPixelFormatType = UNKNOWN | RGBA | LUMINANCE | COMPRESSED

text \<open>The \<^verbatim>\<open>switch\<close> of the source: each group of case labels is a membership test.\<close>

definition getPVRLegacyPixelFormatType :: "ePVRLegacyPixelFormat \<Rightarrow> ePVRLegacyPixelFormatType" where
  "getPVRLegacyPixelFormatType format =
     (if format \<in> set [ARGB_4444, ARGB_1555, RGB_565, RGB_555, RGB_888, ARGB_8888, ARGB_8332,
                        ARGB_4444_SEC, ARGB_1555_SEC, ARGB_8888_SEC, RGB_565_SEC, RGB_555_SEC,
                        RGB_888_SEC, BGRA_8888, RGB332, ABGR_2101010, ARGB_2101010, GR_1616,
                        ABGR_16161616, R_16F, GR_1616F, ABGR_16161616F, R_32F, GR_3232F,
                        ABGR_32323232F]
      then RGBA
      else if format \<in> set [I8, AI88, MONOCHROME, I8_SEC, AI88_SEC, AL_44, L16, L8, AL_88]
      then LUMINANCE
      else if format \<in> set [V_Y1_U_Y0, Y1_V_Y0_U, PVRTC2, PVRTC4, PVRTC2_SEC, PVRTC4_SEC,
                             DXT1, DXT2, DXT3, DXT4, DXT5, ETC, UYVY, YUY2]
      then COMPRESSED
      else UNKNOWN)"

section \<open>Validity of a pixel format id (lines 3196-3257)\<close>

definition isValidPVRLegacyPixelFormat :: "ePVRLegacyPixelFormat \<Rightarrow> bool" where
  "isValidPVRLegacyPixelFormat pixelFormat =
     (if pixelFormat \<noteq> ARGB_4444 \<and> pixelFormat \<noteq> ARGB_1555 \<and> pixelFormat \<noteq> RGB_565 \<and>
         pixelFormat \<noteq> RGB_555 \<and> pixelFormat \<noteq> ARGB_8888 \<and> pixelFormat \<noteq> ARGB_8332 \<and>
         pixelFormat \<noteq> I8 \<and> pixelFormat \<noteq> AI88 \<and> pixelFormat \<noteq> MONOCHROME \<and>
         pixelFormat \<noteq> V_Y1_U_Y0 \<and> pixelFormat \<noteq> Y1_V_Y0_U \<and> pixelFormat \<noteq> PVRTC2 \<and>
         pixelFormat \<noteq> PVRTC4 \<and> pixelFormat \<noteq> ARGB_4444_SEC \<and> pixelFormat \<noteq> ARGB_1555_SEC \<and>
         pixelFormat \<noteq> ARGB_8888_SEC \<and> pixelFormat \<noteq> RGB_565_SEC \<and> pixelFormat \<noteq> RGB_555_SEC \<and>
         pixelFormat \<noteq> RGB_888_SEC \<and> pixelFormat \<noteq> I8_SEC \<and> pixelFormat \<noteq> AI88_SEC \<and>
         pixelFormat \<noteq> PVRTC2_SEC \<and> pixelFormat \<noteq> PVRTC4_SEC \<and> pixelFormat \<noteq> BGRA_8888 \<and>
         pixelFormat \<noteq> DXT1 \<and> pixelFormat \<noteq> DXT2 \<and> pixelFormat \<noteq> DXT3 \<and>
         pixelFormat \<noteq> DXT4 \<and> pixelFormat \<noteq> DXT5 \<and> pixelFormat \<noteq> RGB332 \<and>
         pixelFormat \<noteq> AL_44 \<and> pixelFormat \<noteq> LVU_655 \<and> pixelFormat \<noteq> XLVU_8888 \<and>
         pixelFormat \<noteq> QWVU_8888 \<and> pixelFormat \<noteq> ABGR_2101010 \<and> pixelFormat \<noteq> ARGB_2101010 \<and>
         pixelFormat \<noteq> AWVU_2101010 \<and> pixelFormat \<noteq> GR_1616 \<and> pixelFormat \<noteq> VU_1616 \<and>
         pixelFormat \<noteq> ABGR_16161616 \<and> pixelFormat \<noteq> R_16F \<and> pixelFormat \<noteq> GR_1616F \<and>
         pixelFormat \<noteq> ABGR_16161616F \<and> pixelFormat \<noteq> R_32F \<and> pixelFormat \<noteq> GR_3232F \<and>
         pixelFormat \<noteq> ABGR_32323232F \<and> pixelFormat \<noteq> ETC \<and> pixelFormat \<noteq> A8 \<and>
         pixelFormat \<noteq> VU_88 \<and> pixelFormat \<noteq> L16 \<and> pixelFormat \<noteq> L8 \<and>
         pixelFormat \<noteq> AL_88 \<and> pixelFormat \<noteq> UYVY \<and> pixelFormat \<noteq> YUY2
      then False
      else True)"

section \<open>Bit depth and surface dimensions (lines 100-109 and 1470-1619)\<close>

text \<open>
  The sizes and dimensions of the source are \<^verbatim>\<open>uint32\<close>: words of 32 bits, whose
  arithmetic wraps around.
\<close>

type_synonym uint32 = "32 word"

definition getPVRNativeImageRowAlignment :: uint32 where
  "getPVRNativeImageRowAlignment = 1"

text \<open>
  Modelled from the spec: the macro \<^verbatim>\<open>ALIGN_SIZE\<close> is not part of the sources at hand.
  The specification says that it rounds its first argument up to the nearest multiple of
  the second one.  The source applies it to \<^verbatim>\<open>uint32\<close> values and stores the result in a
  \<^verbatim>\<open>uint32\<close>, so the model computes on 32-bit words: where the rounded value does not
  fit into 32 bits, the result has wrapped around.
\<close>

definition ALIGN_SIZE :: "uint32 \<Rightarrow> uint32 \<Rightarrow> uint32" where
  "ALIGN_SIZE num sz = ((num + sz - 1) div sz) * sz"

text \<open>
  Modelled from the spec: \<^verbatim>\<open>getRasterDataRowSize\<close> and \<^verbatim>\<open>getRasterDataSizeByRowSize\<close>
  (pixelutil.hxx) are not part of the sources at hand.  Section 4.5 of the specification:
  a row takes \<open>ceil(width * depth / 8)\<close> bytes, padded to the row alignment, and a layer
  takes row size times height bytes.  The source passes \<^verbatim>\<open>uint32\<close> values and stores the
  results in \<^verbatim>\<open>uint32\<close> variables, so the model computes on 32-bit words.
\<close>

definition getRasterDataRowSize :: "uint32 \<Rightarrow> uint32 \<Rightarrow> uint32 \<Rightarrow> uint32" where
  "getRasterDataRowSize planeWidth depth alignment =
     ALIGN_SIZE ((planeWidth * depth + 7) div 8) alignment"

definition getRasterDataSizeByRowSize :: "uint32 \<Rightarrow> uint32 \<Rightarrow> uint32" where
  "getRasterDataSizeByRowSize rowSize height = rowSize * height"

definition getPVRNativeImageRasterDataRowSize :: "uint32 \<Rightarrow> uint32 \<Rightarrow> uint32" where
  "getPVRNativeImageRasterDataRowSize surfWidth depth =
     getRasterDataRowSize surfWidth depth getPVRNativeImageRowAlignment"

text \<open>
  The \<^verbatim>\<open>switch\<close> has no label for an id outside the enumeration: the source then runs
  \<^verbatim>\<open>assert( 0 )\<close> and returns 0.  The model returns 0 there.
\<close>

definition getPVRLegacyFormatDepth :: "ePVRLegacyPixelFormat \<Rightarrow> uint32" where
  "getPVRLegacyFormatDepth format =
     (if format \<in> set [ARGB_4444, ARGB_1555, RGB_565, RGB_555, ARGB_8332, AI88, ARGB_4444_SEC,
                        ARGB_1555_SEC, RGB_565_SEC, RGB_555_SEC, AI88_SEC, LVU_655, R_16F,
                        VU_88, L16, AL_88]
      then 16
      else if format \<in> set [RGB_888, RGB_888_SEC]
      then 24
      else if format \<in> set [ARGB_8888, ARGB_8888_SEC, BGRA_8888, XLVU_8888, QWVU_8888,
                             ABGR_2101010, ARGB_2101010, AWVU_2101010, GR_1616, VU_1616,
                             GR_1616F, R_32F]
      then 32
      else if format \<in> set [I8, V_Y1_U_Y0, Y1_V_Y0_U, UYVY, YUY2, I8_SEC, DXT2, DXT3, DXT4,
                             DXT5, RGB332, AL_44, A8, L8]
      then 8
      else if format \<in> set [MONOCHROME]
      then 1
      else if format \<in> set [PVRTC2, PVRTC2_SEC]
      then 2
      else if format \<in> set [PVRTC4, PVRTC4_SEC, DXT1, ETC]
      then 4
      else if format \<in> set [ABGR_16161616, ABGR_16161616F, GR_3232F]
      then 64
      else if format \<in> set [ABGR_32323232F]
      then 128
      else 0)"

text \<open>
  \<^verbatim>\<open>getPVRCompressionBlockDimensions\<close> (txdread.pvr.hxx) is not part of the sources at
  hand; the function takes it as the parameter \<open>blockDims\<close>, from the bit depth to the
  block width and height.
\<close>

definition getPVRLegacyFormatSurfaceDimensions ::
  "(uint32 \<Rightarrow> uint32 \<times> uint32) \<Rightarrow> ePVRLegacyPixelFormat \<Rightarrow> uint32 \<Rightarrow> uint32 \<Rightarrow> uint32 \<times> uint32" where
  "getPVRLegacyFormatSurfaceDimensions blockDims format layerWidth layerHeight =
     (if format \<in> set [V_Y1_U_Y0, Y1_V_Y0_U, UYVY, YUY2]
      then (ALIGN_SIZE layerWidth 2, ALIGN_SIZE layerHeight 2)
      else if format \<in> set [DXT1, DXT2, DXT3, DXT4, DXT5, ETC]
      then (ALIGN_SIZE layerWidth 4, ALIGN_SIZE layerHeight 4)
      else if format \<in> set [PVRTC2, PVRTC4, PVRTC2_SEC, PVRTC4_SEC]
      then (case blockDims (getPVRLegacyFormatDepth format) of
              (comprBlockWidth, comprBlockHeight) \<Rightarrow>
                (ALIGN_SIZE layerWidth comprBlockWidth, ALIGN_SIZE layerHeight comprBlockHeight))
      else (layerWidth, layerHeight))"


text \<open>
  Rounding up on natural numbers, without a bound: what the specification means by
  rounding up to the nearest multiple, and by \<open>ceil(width * depth / 8)\<close>.
\<close>

definition round_up :: "nat \<Rightarrow> nat \<Rightarrow> nat" where
  "round_up n b = ((n + b - 1) div b) * b"


section \<open>Sample codec: \<^verbatim>\<open>pvrColorDispatcher\<close> (lines 216-1224)\<close>

type_synonym uint8 = "8 word"

text \<open>
  Modelled from the spec: \<^verbatim>\<open>putscalecolor\<close> and \<^verbatim>\<open>destscalecolor\<close> (pixelformat.hxx)
  are not part of the sources at hand.  Section 4.3 of the specification: scaling between
  an N-bit channel and an 8-bit channel is linear, round-to-nearest, with the maximum
  representable value of the channel as divisor; a 5-bit field scales by
  \<open>value * 255 / 31\<close>, and 130 scales to 16 and back to 132.  Every maximum is odd, so a
  quotient never lies exactly between two integers and the rounding rule is unambiguous.
\<close>

definition scalecolor :: "nat \<Rightarrow> nat \<Rightarrow> nat \<Rightarrow> nat" where
  "scalecolor color curMax newMax = (2 * color * newMax + curMax) div (2 * curMax)"

definition putscalecolor :: "uint8 \<Rightarrow> nat \<Rightarrow> nat" where
  "putscalecolor color desiredMax = scalecolor (unat color) 255 desiredMax"

definition destscalecolor :: "nat \<Rightarrow> nat \<Rightarrow> uint8" where
  "destscalecolor color curMax = of_nat (scalecolor color curMax 255)"

text \<open>
  What the codec uses and the sources at hand do not define is a parameter of the model:
  the conversion of a float sample to a byte (\<^verbatim>\<open>destscalecolorf( item.red, redOut )\<close>),
  the call \<^verbatim>\<open>destscalecolorf( red, item.red )\<close> of \<^verbatim>\<open>puttexelrgba\<close> that fills a float
  sample from a byte, \<^verbatim>\<open>rgb2lum\<close>, and the value that a struct member or a local
  variable holds when the source never assigns it.  A float sample is an opaque number.
\<close>

record codec_env =
  destscalecolorf :: "nat \<Rightarrow> uint8"
  putscalecolorf :: "uint8 \<Rightarrow> nat"
  rgb2lum :: "uint8 \<Rightarrow> uint8 \<Rightarrow> uint8 \<Rightarrow> uint8"
  indeterminate :: nat

text \<open>
  A texel is the list of the members of the local \<^verbatim>\<open>struct color\<close>, in declaration
  order; a texel buffer is the array of such structs that the source obtains by casting
  \<^verbatim>\<open>srcTexels\<close>.  Two structs with the same member widths in the same order share their
  layout, whatever the compiler: what one branch stores as its k-th member another
  branch reads as its k-th member.  An index outside the buffer is undefined behaviour in
  the source; the theorems below assume the index inside.

  Assigning to a bit-field of width \<open>w\<close> keeps the low \<open>w\<close> bits.
\<close>

type_synonym texel = "nat list"
type_synonym texels = "texel list"

definition bitfield :: "nat \<Rightarrow> nat \<Rightarrow> nat" where
  "bitfield width v = v mod 2 ^ width"

text \<open>
  Modelled from the spec: the templates \<^verbatim>\<open>endian::little_endian\<close> and
  \<^verbatim>\<open>endian::big_endian\<close> are not part of the sources at hand.  Sections 4.1 and 8 of the
  specification: writing and reading through the same byte order is the identity,
  reading through the other one is not.  The big-endian wrapper reverses the image of the
  struct.
\<close>

definition endian_store :: "bool \<Rightarrow> texel \<Rightarrow> texel" where
  "endian_store isLittleEndian item = (if isLittleEndian then item else rev item)"

definition endian_load :: "bool \<Rightarrow> texel \<Rightarrow> texel" where
  "endian_load isLittleEndian stored = (if isLittleEndian then stored else rev stored)"

text \<open>\<^verbatim>\<open>*( (const endianness <color>*)srcTexels + colorIndex )\<close>\<close>

definition texel_at :: "bool \<Rightarrow> texels \<Rightarrow> nat \<Rightarrow> texel" where
  "texel_at isLittleEndian srcTexels colorIndex = endian_load isLittleEndian (srcTexels ! colorIndex)"

text \<open>\<^verbatim>\<open>*( (endianness <color>*)dstTexels + colorIndex ) = item\<close>\<close>

definition texel_put :: "bool \<Rightarrow> texels \<Rightarrow> nat \<Rightarrow> texel \<Rightarrow> texels" where
  "texel_put isLittleEndian dstTexels colorIndex item =
     dstTexels[colorIndex := endian_store isLittleEndian item]"

text \<open>
  The output references \<^verbatim>\<open>redOut, greenOut, blueOut, alphaOut\<close> are passed in with the
  values they hold before the call, and returned with the values they hold after it: a
  reference that a branch does not assign keeps its value.
\<close>

type_synonym rgba = "uint8 \<times> uint8 \<times> uint8 \<times> uint8"

definition browsetexelrgba ::
  "codec_env \<Rightarrow> bool \<Rightarrow> texels \<Rightarrow> nat \<Rightarrow> ePVRLegacyPixelFormat \<Rightarrow> rgba \<Rightarrow> bool \<times> rgba" where
  "browsetexelrgba env endianness srcTexels colorIndex pixelFormat outs =
     (case outs of (redOut, greenOut, blueOut, alphaOut) \<Rightarrow>
      let item = texel_at endianness srcTexels colorIndex in
      if pixelFormat = ARGB_4444 \<or> pixelFormat = ARGB_4444_SEC then
        (let alpha = item ! 0; blue = item ! 1; green = item ! 2; red = item ! 3 in
         (True, (destscalecolor red 15, destscalecolor green 15, destscalecolor blue 15,
                 destscalecolor alpha 15)))
      else if pixelFormat = ARGB_1555 \<or> pixelFormat = ARGB_1555_SEC then
        (let alpha = item ! 0; blue = item ! 1; green = item ! 2; red = item ! 3 in
         (True, (destscalecolor red 31, destscalecolor green 31, destscalecolor blue 31,
                 (if alpha \<noteq> 0 then 255 else 0))))
      else if pixelFormat = RGB_565 \<or> pixelFormat = RGB_565_SEC then
        (let blue = item ! 0; green = item ! 1; red = item ! 2 in
         (True, (destscalecolor red 31, destscalecolor green 63, destscalecolor blue 31, 255)))
      else if pixelFormat = RGB_555 \<or> pixelFormat = RGB_555_SEC then
        (let unused = item ! 0; blue = item ! 1; green = item ! 2; red = item ! 3 in
         (True, (destscalecolor red 31, destscalecolor green 31, destscalecolor blue 31, 255)))
      else if pixelFormat = RGB_888 \<or> pixelFormat = RGB_888_SEC then
        (let blue = item ! 0; green = item ! 1; red = item ! 2 in
         (True, (destscalecolor red 255, destscalecolor green 255, destscalecolor blue 255, 255)))
      else if pixelFormat = ARGB_8888 \<or> pixelFormat = ARGB_8888_SEC then
        (let red = item ! 0; green = item ! 1; blue = item ! 2; alpha = item ! 3 in
         (True, (destscalecolor red 255, destscalecolor green 255, destscalecolor blue 255,
                 destscalecolor alpha 255)))
      else if pixelFormat = ARGB_8332 then
        (let alpha = item ! 0; red = item ! 1; green = item ! 2; blue = item ! 3 in
         (True, (destscalecolor red 7, destscalecolor green 7, destscalecolor blue 3,
                 destscalecolor alpha 255)))
      else if pixelFormat = BGRA_8888 then
        (let blue = item ! 0; green = item ! 1; red = item ! 2; alpha = item ! 3 in
         (True, (destscalecolor red 255, destscalecolor green 255, destscalecolor blue 255,
                 destscalecolor alpha 255)))
      else if pixelFormat = RGB332 then
        (let red = item ! 0; green = item ! 1; blue = item ! 2 in
         (True, (destscalecolor red 7, destscalecolor green 7, destscalecolor blue 3, 255)))
      else if pixelFormat = ABGR_2101010 then
        (let alpha = item ! 0; red = item ! 1; green = item ! 2; blue = item ! 3 in
         (True, (destscalecolor red 1023, destscalecolor green 1023, destscalecolor blue 1023,
                 destscalecolor alpha 3)))
      else if pixelFormat = ARGB_2101010 then
        (let alpha = item ! 0; blue = item ! 1; green = item ! 2; red = item ! 3 in
         (True, (destscalecolor red 1023, destscalecolor green 1023, destscalecolor blue 1023,
                 destscalecolor alpha 3)))
      else if pixelFormat = GR_1616 then
        (let green = item ! 0; red = item ! 1 in
         (True, (destscalecolor red 65535, destscalecolor green 65535, 0, 255)))
      else if pixelFormat = ABGR_16161616 then
        (let alpha = item ! 0; blue = item ! 1; green = item ! 2; red = item ! 3;
             alphaOut = destscalecolor alpha 65535;
             blueOut = destscalecolor blue 65535;
             greenOut = destscalecolor green 65535;
             blueOut = destscalecolor blue 65535 in
         (True, (redOut, greenOut, blueOut, alphaOut)))
      else if pixelFormat = R_32F then
        (let red = item ! 0 in
         (True, (destscalecolorf env red, 0, 0, 255)))
      else if pixelFormat = GR_3232F then
        (let green = item ! 0; red = item ! 1 in
         (True, (destscalecolorf env red, destscalecolorf env green, 0, 255)))
      else if pixelFormat = ABGR_32323232F then
        (let alpha = item ! 0; blue = item ! 1; green = item ! 2; red = item ! 3 in
         (True, (destscalecolorf env red, destscalecolorf env green, destscalecolorf env blue,
                 destscalecolorf env alpha)))
      else if pixelFormat = A8 then
        (let alpha = item ! 0 in
         (True, (0, 0, 0, destscalecolor alpha 255)))
      else (False, outs))"

definition puttexelrgba ::
  "codec_env \<Rightarrow> bool \<Rightarrow> texels \<Rightarrow> nat \<Rightarrow> ePVRLegacyPixelFormat \<Rightarrow> rgba \<Rightarrow> bool \<times> texels" where
  "puttexelrgba env endianness dstTexels colorIndex pixelFormat color =
     (case color of (red, green, blue, alpha) \<Rightarrow>
      if pixelFormat = ARGB_4444 \<or> pixelFormat = ARGB_4444_SEC then
        (let item = [bitfield 4 (putscalecolor alpha 15), bitfield 4 (putscalecolor blue 15),
                     bitfield 4 (putscalecolor green 15), bitfield 4 (putscalecolor red 15)] in
         (True, texel_put endianness dstTexels colorIndex item))
      else if pixelFormat = ARGB_1555 \<or> pixelFormat = ARGB_1555_SEC then
        (let item = [bitfield 1 (if alpha = 255 then 1 else 0), bitfield 5 (putscalecolor blue 31),
                     bitfield 5 (putscalecolor green 31), bitfield 5 (putscalecolor red 31)] in
         (True, texel_put endianness dstTexels colorIndex item))
      else if pixelFormat = RGB_565 \<or> pixelFormat = RGB_565_SEC then
        (let item = [bitfield 5 (putscalecolor blue 31), bitfield 6 (putscalecolor green 63),
                     bitfield 5 (putscalecolor red 31)] in
         (True, texel_put endianness dstTexels colorIndex item))
      else if pixelFormat = RGB_555 \<or> pixelFormat = RGB_555_SEC then
        (let item = [bitfield 1 (indeterminate env), bitfield 5 (putscalecolor blue 31),
                     bitfield 5 (putscalecolor green 31), bitfield 5 (putscalecolor red 31)] in
         (True, texel_put endianness dstTexels colorIndex item))
      else if pixelFormat = RGB_888 \<or> pixelFormat = RGB_888_SEC then
        (let item = [bitfield 8 (putscalecolor red 255), bitfield 8 (putscalecolor green 255),
                     bitfield 8 (putscalecolor blue 255)] in
         (True, texel_put endianness dstTexels colorIndex item))
      else if pixelFormat = ARGB_8888 \<or> pixelFormat = ARGB_8888_SEC then
        (let item = [bitfield 8 (putscalecolor red 255), bitfield 8 (putscalecolor green 255),
                     bitfield 8 (putscalecolor blue 255), bitfield 8 (putscalecolor alpha 255)] in
         (True, texel_put endianness dstTexels colorIndex item))
      else if pixelFormat = ARGB_8332 then
        (let item = [bitfield 8 (putscalecolor alpha 255), bitfield 3 (putscalecolor red 7),
                     bitfield 3 (putscalecolor green 7), bitfield 2 (putscalecolor blue 3)] in
         (True, texel_put endianness dstTexels colorIndex item))
      else if pixelFormat = BGRA_8888 then
        (let item = [bitfield 8 (putscalecolor blue 255), bitfield 8 (putscalecolor green 255),
                     bitfield 8 (putscalecolor red 255), bitfield 8 (putscalecolor alpha 255)] in
         (True, texel_put endianness dstTexels colorIndex item))
      else if pixelFormat = RGB332 then
        (let item = [bitfield 3 (putscalecolor red 7), bitfield 3 (putscalecolor green 7),
                     bitfield 2 (putscalecolor blue 3)] in
         (True, texel_put endianness dstTexels colorIndex item))
      else if pixelFormat = ABGR_2101010 then
        (let item = [bitfield 2 (putscalecolor alpha 3), bitfield 10 (putscalecolor blue 1023),
                     bitfield 10 (putscalecolor green 1023), bitfield 10 (putscalecolor red 1023)] in
         (True, texel_put endianness dstTexels colorIndex item))
      else if pixelFormat = ARGB_2101010 then
        (let item = [bitfield 2 (putscalecolor alpha 3), bitfield 10 (putscalecolor red 1023),
                     bitfield 10 (putscalecolor green 1023), bitfield 10 (putscalecolor blue 1023)] in
         (True, texel_put endianness dstTexels colorIndex item))
      else if pixelFormat = GR_1616 then
        (let item = [bitfield 16 (putscalecolor green 65535), bitfield 16 (putscalecolor red 65535)] in
         (True, texel_put endianness dstTexels colorIndex item))
      else if pixelFormat = ABGR_16161616 then
        (let item = [bitfield 16 (putscalecolor alpha 65535), bitfield 16 (putscalecolor blue 65535),
                     bitfield 16 (putscalecolor green 65535), bitfield 16 (putscalecolor red 65535)] in
         (True, texel_put endianness dstTexels colorIndex item))
      else if pixelFormat = R_32F then
        (let item = [putscalecolorf env red] in
         (True, texel_put endianness dstTexels colorIndex item))
      else if pixelFormat = GR_3232F then
        (let item = [putscalecolorf env green, putscalecolorf env red] in
         (True, texel_put endianness dstTexels colorIndex item))
      else if pixelFormat = ABGR_32323232F then
        (let item = [putscalecolorf env alpha, putscalecolorf env blue, putscalecolorf env green,
                     putscalecolorf env red] in
         (True, texel_put endianness dstTexels colorIndex item))
      else (False, dstTexels))"

type_synonym lumalpha = "uint8 \<times> uint8"

definition browsetexellum ::
  "bool \<Rightarrow> texels \<Rightarrow> nat \<Rightarrow> ePVRLegacyPixelFormat \<Rightarrow> lumalpha \<Rightarrow> bool \<times> lumalpha" where
  "browsetexellum endianness srcTexels colorIndex pixelFormat outs =
     (let item = texel_at endianness srcTexels colorIndex in
      if pixelFormat = I8 \<or> pixelFormat = I8_SEC \<or> pixelFormat = L8 then
        (let intensity = item ! 0 in
         (True, (destscalecolor intensity 255, 255)))
      else if pixelFormat = AI88 \<or> pixelFormat = AI88_SEC \<or> pixelFormat = AL_88 then
        (let intensity = item ! 0; alpha = item ! 1 in
         (True, (destscalecolor intensity 255, destscalecolor alpha 255)))
      else if pixelFormat = AL_44 then
        (let luminance = item ! 0; alpha = item ! 1 in
         (True, (destscalecolor luminance 15, destscalecolor alpha 15)))
      else if pixelFormat = L16 then
        (let luminance = item ! 0 in
         (True, (destscalecolor luminance 65535, 255)))
      else (False, outs))"


text \<open>The members of the dispatcher carry the prefix \<open>disp_\<close>.\<close>

record pvrColorDispatcher =
  disp_pixelFormat :: ePVRLegacyPixelFormat
  disp_colorModel :: ePVRLegacyPixelFormatType
  disp_isLittleEndian :: bool

text \<open>
  Every \<^verbatim>\<open>throw RwException( ... )\<close> of the functions modelled here is a constructor,
  named after its message.
\<close>

datatype RwException =
    InvalidColorModelRGBAFetch
  | InvalidColorModelLumFetch
  | InvalidColorModelRGBASet
  | InvalidColorModelLumPut
  | InvalidPVRNativeImage
  | InvalidPixelFormat
  | CubemapNotSupported
  | VolumeTextureNotSupported
  | VerticallyFlippedNotSupported
  | TwiddledNotPOTAndSquared
  | TwiddledNotSupported
  | InvalidImageDimensions
  | TooLittleSurfaceData
  | NotEnoughStreamData
  | MipmapAllocationFailed
  | ImpartialMipmapRead
  | InvalidNativeTextureType
  | ConversionLayerAllocationFailed
  | ConversionFailed
  | UnsupportedCompressionType
  | InvalidPVRTCCompressionType

text \<open>
  \<^verbatim>\<open>getRGBA\<close> and \<^verbatim>\<open>getLuminance\<close> call each other, each from the branch of the other
  colour model.  The colour model of a dispatcher never changes, so the call of
  \<^verbatim>\<open>getLuminance\<close> from the LUMINANCE branch of \<^verbatim>\<open>getRGBA\<close> runs the LUMINANCE branch of
  \<^verbatim>\<open>getLuminance\<close>, which is \<open>getLuminance_LUMINANCE\<close>; likewise for \<^verbatim>\<open>setLuminance\<close>
  and \<^verbatim>\<open>setRGBA\<close>.  Both branches of \<^verbatim>\<open>if ( this->isLittleEndian )\<close> instantiate the same
  template, which takes the byte order as its argument here.
\<close>

definition getLuminance_LUMINANCE ::
  "pvrColorDispatcher \<Rightarrow> texels \<Rightarrow> nat \<Rightarrow> lumalpha \<Rightarrow> bool \<times> lumalpha" where
  "getLuminance_LUMINANCE this srcTexels colorIndex outs =
     (if disp_isLittleEndian this
      then browsetexellum True srcTexels colorIndex (disp_pixelFormat this) outs
      else browsetexellum False srcTexels colorIndex (disp_pixelFormat this) outs)"

definition getRGBA ::
  "codec_env \<Rightarrow> pvrColorDispatcher \<Rightarrow> texels \<Rightarrow> nat \<Rightarrow> rgba \<Rightarrow> RwException + bool \<times> rgba" where
  "getRGBA env this srcTexels colorIndex outs =
     (case outs of (redOut, greenOut, blueOut, alphaOut) \<Rightarrow>
      if disp_colorModel this = RGBA then
        (if disp_isLittleEndian this
         then Inr (browsetexelrgba env True srcTexels colorIndex (disp_pixelFormat this) outs)
         else Inr (browsetexelrgba env False srcTexels colorIndex (disp_pixelFormat this) outs))
      else if disp_colorModel this = LUMINANCE then
        (case getLuminance_LUMINANCE this srcTexels colorIndex (of_nat (indeterminate env), alphaOut) of
           (gotColor, (lum, alphaOut)) \<Rightarrow>
             if gotColor then Inr (gotColor, (lum, lum, lum, alphaOut))
             else Inr (gotColor, (redOut, greenOut, blueOut, alphaOut)))
      else Inl InvalidColorModelRGBAFetch)"

definition getLuminance ::
  "codec_env \<Rightarrow> pvrColorDispatcher \<Rightarrow> texels \<Rightarrow> nat \<Rightarrow> lumalpha \<Rightarrow> RwException + bool \<times> lumalpha" where
  "getLuminance env this srcTexels colorIndex outs =
     (case outs of (lumOut, alphaOut) \<Rightarrow>
      if disp_colorModel this = RGBA then
        (case getRGBA env this srcTexels colorIndex
                (of_nat (indeterminate env), of_nat (indeterminate env), of_nat (indeterminate env), alphaOut) of
           Inl e \<Rightarrow> Inl e
         | Inr (gotColor, (red, green, blue, alphaOut)) \<Rightarrow>
             if gotColor then Inr (gotColor, (rgb2lum env red green blue, alphaOut))
             else Inr (gotColor, (lumOut, alphaOut)))
      else if disp_colorModel this = LUMINANCE then
        Inr (getLuminance_LUMINANCE this srcTexels colorIndex outs)
      else Inl InvalidColorModelLumFetch)"

definition setRGBA ::
  "codec_env \<Rightarrow> pvrColorDispatcher \<Rightarrow> texels \<Rightarrow> nat \<Rightarrow> rgba \<Rightarrow> RwException + bool \<times> texels" where
  "setRGBA env this dstTexels colorIndex color =
     (case color of (red, green, blue, alpha) \<Rightarrow>
      if disp_colorModel this = RGBA then
        (if disp_isLittleEndian this
         then Inr (puttexelrgba env True dstTexels colorIndex (disp_pixelFormat this) color)
         else Inr (puttexelrgba env False dstTexels colorIndex (disp_pixelFormat this) color))
      else if disp_colorModel this = LUMINANCE then
        (let lum = rgb2lum env red green blue;
             didPut = False
         in Inr (didPut, dstTexels))
      else Inl InvalidColorModelRGBASet)"


text \<open>The constructor of \<^verbatim>\<open>pvrColorDispatcher\<close>.\<close>

definition mk_pvrColorDispatcher ::
  "ePVRLegacyPixelFormat \<Rightarrow> ePVRLegacyPixelFormatType \<Rightarrow> bool \<Rightarrow> pvrColorDispatcher" where
  "mk_pvrColorDispatcher pixelFormat formatType isLittleEndian =
     \<lparr> disp_pixelFormat = pixelFormat, disp_colorModel = formatType,
       disp_isLittleEndian = isLittleEndian \<rparr>"

subsection \<open>The round trip through the codec, as the specification words it\<close>

text \<open>
  The specification (section 8) says of a sample written with \<^verbatim>\<open>setRGBA\<close> or
  \<^verbatim>\<open>setLuminance\<close> and read back with \<^verbatim>\<open>getRGBA\<close> or \<^verbatim>\<open>getLuminance\<close> that each
  channel comes back quantized to the bit width of the channel: scaled to N bits and
  back, both round-to-nearest.  The definitions of this subsection follow the
  specification, not the source.
\<close>

definition spec_quantize :: "nat \<Rightarrow> uint8 \<Rightarrow> uint8" where
  "spec_quantize n v = of_nat (scalecolor (scalecolor (unat v) 255 (2 ^ n - 1)) (2 ^ n - 1) 255)"







text \<open>
  An environment to run the codec on concrete inputs: float samples are not exercised,
  \<^verbatim>\<open>rgb2lum\<close> takes the green channel, and what the source leaves unassigned is 0.
\<close>

definition sample_env :: codec_env where
  "sample_env =
     \<lparr> destscalecolorf = (\<lambda>f. 0), putscalecolorf = (\<lambda>c. 0), rgb2lum = (\<lambda>r g b. g),
       indeterminate = 0 \<rparr>"


section \<open>The engine interface: pixel memory and warnings\<close>

type_synonym byte = "8 word"

text \<open>
  Modelled from the spec: the allocator behind \<^verbatim>\<open>PixelAllocate\<close> and \<^verbatim>\<open>PixelFree\<close> is not
  part of the sources at hand (section 6: a memory allocator for pixel buffers, whose
  allocation can return null).  A pointer is a number and 0 is the null pointer.  The
  state holds the contents of every live buffer by address, the next fresh address, the
  number of calls of \<^verbatim>\<open>PixelAllocate\<close> so far, and the policy that says whether the k-th
  call succeeds; a theorem for every policy holds for every pattern of failures.

  \<^verbatim>\<open>Interface::PushWarning\<close> (rwinterface.cpp, lines 435-467) hands the message to the
  warning handler on top of the stack, or else to the warning manager, when the warning
  level is positive.  The receiving end is the list \<open>warnings\<close>.
\<close>

datatype warning =
    InvalidBitsPerPixel
  | MoreMipmapLayersThanCouldBeRead
  | HasSurfaceMetaData

record Interface =
  pixels :: "nat \<rightharpoonup> byte list"
  next_ptr :: nat
  alloc_calls :: nat
  alloc_policy :: "nat \<Rightarrow> bool"
  warningLevel :: int
  warnings :: "warning list"

definition PixelAllocate :: "Interface \<Rightarrow> nat \<Rightarrow> nat \<times> Interface" where
  "PixelAllocate engineInterface memSize =
     (if alloc_policy engineInterface (alloc_calls engineInterface)
      then (next_ptr engineInterface,
            engineInterface\<lparr> pixels := (pixels engineInterface)(next_ptr engineInterface \<mapsto> replicate memSize 0),
                              next_ptr := next_ptr engineInterface + 1,
                              alloc_calls := alloc_calls engineInterface + 1 \<rparr>)
      else (0, engineInterface\<lparr> alloc_calls := alloc_calls engineInterface + 1 \<rparr>))"

definition PixelFree :: "Interface \<Rightarrow> nat \<Rightarrow> Interface" where
  "PixelFree engineInterface ptr =
     engineInterface\<lparr> pixels := (pixels engineInterface)(ptr := None) \<rparr>"

definition PushWarning :: "Interface \<Rightarrow> warning \<Rightarrow> Interface" where
  "PushWarning engineInterface message =
     (if warningLevel engineInterface > 0
      then engineInterface\<lparr> warnings := warnings engineInterface @ [message] \<rparr>
      else engineInterface)"

section \<open>Streams and the legacy header (lines 1697-1749 and 3036-3194)\<close>

text \<open>
  Modelled from the spec: \<^verbatim>\<open>Stream\<close> is not part of the sources at hand (section 6:
  byte-stream read and skip with exact-count semantics and an ahead-of-time check that
  enough bytes remain).  A stream is the list of the bytes not read yet; \<^verbatim>\<open>read\<close> hands
  out the next bytes, fewer than asked for at the end of the stream.
\<close>

type_synonym Stream = "byte list"

definition stream_read :: "Stream \<Rightarrow> nat \<Rightarrow> byte list \<times> Stream" where
  "stream_read stream count = (take count stream, drop count stream)"

definition stream_skip :: "Stream \<Rightarrow> nat \<Rightarrow> Stream" where
  "stream_skip stream count = drop count stream"

text \<open>\<^verbatim>\<open>readStreamStruct\<close>, with the size of the struct as argument.\<close>

definition readStreamStruct :: "Stream \<Rightarrow> nat \<Rightarrow> bool \<times> byte list \<times> Stream" where
  "readStreamStruct stream sizeof_structType =
     (case stream_read stream sizeof_structType of
        (structOut, stream') \<Rightarrow> (length structOut = sizeof_structType, structOut, stream'))"

text \<open>
  Modelled from the spec: the endian-aware integers (section 4.1).  The little-endian
  reading of four bytes has the first byte as its lowest byte, the big-endian reading has
  it as its highest byte.
\<close>

definition little_endian_uint32 :: "byte list \<Rightarrow> 32 word" where
  "little_endian_uint32 bs =
     of_nat (unat (bs ! 0) + 256 * unat (bs ! 1) + 65536 * unat (bs ! 2) + 16777216 * unat (bs ! 3))"

definition big_endian_uint32 :: "byte list \<Rightarrow> 32 word" where
  "big_endian_uint32 bs =
     of_nat (unat (bs ! 3) + 256 * unat (bs ! 2) + 65536 * unat (bs ! 1) + 16777216 * unat (bs ! 0))"

text \<open>
  The members of \<^verbatim>\<open>header_data_union\<close> over the four bytes \<^verbatim>\<open>header_size_data\<close>.  The
  source declares both of them as \<^verbatim>\<open>endian::little_endian <uint32>\<close>:
  \<^verbatim>\<open>
    char header_size_data[4];
    endian::little_endian <uint32> le_header_size;
    endian::little_endian <uint32> be_header_size;
  \<close>
\<close>

definition le_header_size :: "byte list \<Rightarrow> 32 word" where
  "le_header_size header_size_data = little_endian_uint32 header_size_data"

definition be_header_size :: "byte list \<Rightarrow> 32 word" where
  "be_header_size header_size_data = little_endian_uint32 header_size_data"

text \<open>
  \<^verbatim>\<open>struct pvr_legacy_formatField\<close>: bit-fields in declaration order from the lowest bit
  (section 6 of the specification: bits 0 to 7 are the pixel format id, bit 8
  \<^verbatim>\<open>mipmapsPresent\<close>, bit 9 \<^verbatim>\<open>dataIsTwiddled\<close>, and so on up to bit 16).
\<close>

record pvr_legacy_formatField =
  ff_pixelFormat :: nat
  ff_mipmapsPresent :: bool
  ff_dataIsTwiddled :: bool
  ff_containsNormalData :: bool
  ff_hasBorder :: bool
  ff_isCubeMap :: bool
  ff_mipmapsHaveDebugColoring :: bool
  ff_isVolumeTexture :: bool
  ff_hasAlphaChannel_pvrtc :: bool
  ff_isVerticallyFlipped :: bool

definition flag_bit :: "32 word \<Rightarrow> nat \<Rightarrow> bool" where
  "flag_bit w n = ((unat w div 2 ^ n) mod 2 = 1)"

definition decode_formatField :: "32 word \<Rightarrow> pvr_legacy_formatField" where
  "decode_formatField w =
     \<lparr> ff_pixelFormat = unat w mod 256,
       ff_mipmapsPresent = flag_bit w 8,
       ff_dataIsTwiddled = flag_bit w 9,
       ff_containsNormalData = flag_bit w 10,
       ff_hasBorder = flag_bit w 11,
       ff_isCubeMap = flag_bit w 12,
       ff_mipmapsHaveDebugColoring = flag_bit w 13,
       ff_isVolumeTexture = flag_bit w 14,
       ff_hasAlphaChannel_pvrtc = flag_bit w 15,
       ff_isVerticallyFlipped = flag_bit w 16 \<rparr>"

text \<open>
  The k-th 32-bit member of a header struct read from the stream, through the byte order
  that is the template argument of the struct.
\<close>

definition header_uint32 :: "bool \<Rightarrow> byte list \<Rightarrow> nat \<Rightarrow> 32 word" where
  "header_uint32 endianness header k =
     (if endianness then little_endian_uint32 (take 4 (drop (4 * k) header))
      else big_endian_uint32 (take 4 (drop (4 * k) header)))"

text \<open>The output parameters of \<^verbatim>\<open>readLegacyVersionHeader\<close>.\<close>

record legacy_header =
  widthOut :: "32 word"
  heightOut :: "32 word"
  mipmapCountOut :: "32 word"
  formatFieldOut :: pvr_legacy_formatField
  surfaceSizeOut :: "32 word"
  bitsPerPixelOut :: "32 word"
  redMaskOut :: "32 word"
  greenMaskOut :: "32 word"
  blueMaskOut :: "32 word"
  alphaMaskOut :: "32 word"
  isLittleEndianOut :: bool

text \<open>
  The assignments that all four branches share.  The members of \<^verbatim>\<open>pvr_header_ver1\<close> and
  \<^verbatim>\<open>pvr_header_ver2\<close> are, in order: height, width, mipmapCount, flags, surfaceSize,
  bitsPerPixel, redMask, greenMask, blueMask, alphaMask (and pvr_id, numberOfSurfaces).
\<close>

definition header_outputs :: "bool \<Rightarrow> byte list \<Rightarrow> legacy_header" where
  "header_outputs endianness header =
     \<lparr> widthOut = header_uint32 endianness header 1,
       heightOut = header_uint32 endianness header 0,
       mipmapCountOut = header_uint32 endianness header 2,
       formatFieldOut = decode_formatField (header_uint32 endianness header 3),
       surfaceSizeOut = header_uint32 endianness header 4,
       bitsPerPixelOut = header_uint32 endianness header 5,
       redMaskOut = header_uint32 endianness header 6,
       greenMaskOut = header_uint32 endianness header 7,
       blueMaskOut = header_uint32 endianness header 8,
       alphaMaskOut = header_uint32 endianness header 9,
       isLittleEndianOut = endianness \<rparr>"

text \<open>
  \<^verbatim>\<open>readLegacyVersionHeader\<close>: \<open>None\<close> is the return value false, \<open>Some\<close> carries the
  output parameters; the stream comes back as far as it was read.  The version 1 header
  has 40 bytes after the size field, the version 2 header 48.
\<close>

definition readLegacyVersionHeader :: "Stream \<Rightarrow> legacy_header option \<times> Stream" where
  "readLegacyVersionHeader inputStream =
     (case readStreamStruct inputStream 4 of (ok, header_size_data, s1) \<Rightarrow>
      if \<not> ok then (None, s1)
      else
        let header_size = le_header_size header_size_data in
        if header_size = 44 then
          (case readStreamStruct s1 40 of (ok, header, s2) \<Rightarrow>
             if \<not> ok then (None, s2)
             else (Some (header_outputs True header), s2))
        else if header_size = 52 then
          (case readStreamStruct s1 48 of (ok, header, s2) \<Rightarrow>
             if \<not> ok then (None, s2)
             else if header_uint32 True header 10 \<noteq> 0x21525650 then (None, s2)
             else (Some (header_outputs True header), s2))
        else
          let header_size = be_header_size header_size_data in
          if header_size = 44 then
            (case readStreamStruct s1 40 of (ok, header, s2) \<Rightarrow>
               if \<not> ok then (None, s2)
               else (Some (header_outputs False header), s2))
          else if header_size = 52 then
            (case readStreamStruct s1 48 of (ok, header, s2) \<Rightarrow>
               if \<not> ok then (None, s2)
               else if header_uint32 False header 10 \<noteq> 0x21525650 then (None, s2)
               else (Some (header_outputs False header), s2))
          else (None, s1))"

section \<open>The native image (lines 1764-1861)\<close>

text \<open>
  The members of \<^verbatim>\<open>genmip::mipmapLayer\<close> that the source reads and writes, with the
  prefix \<open>mip_\<close>: the surface dimensions \<^verbatim>\<open>width\<close> and \<^verbatim>\<open>height\<close>, the logical dimensions
  \<^verbatim>\<open>layerWidth\<close> and \<^verbatim>\<open>layerHeight\<close>, the pointer \<^verbatim>\<open>texels\<close> and \<^verbatim>\<open>dataSize\<close>.
  The dimensions and the size are \<^verbatim>\<open>uint32\<close>.
\<close>

record mipmapLayer =
  mip_width :: uint32
  mip_height :: uint32
  mip_layerWidth :: uint32
  mip_layerHeight :: uint32
  mip_texels :: nat
  mip_dataSize :: uint32

text \<open>\<^verbatim>\<open>struct pvrNativeImage\<close>, members with the prefix \<open>img_\<close>.\<close>

record pvrNativeImage =
  img_pixelFormat :: ePVRLegacyPixelFormat
  img_dataIsTwiddled :: bool
  img_containsNormalData :: bool
  img_hasBorder :: bool
  img_isCubeMap :: bool
  img_mipmapsHaveDebugColoring :: bool
  img_isVolumeTexture :: bool
  img_hasAlphaChannel_pvrtc :: bool
  img_isVerticallyFlipped :: bool
  img_bitDepth :: uint32
  img_mipmaps :: "mipmapLayer list"
  img_isLittleEndian :: bool

definition resetFormat :: "pvrNativeImage \<Rightarrow> pvrNativeImage" where
  "resetFormat this =
     this\<lparr> img_pixelFormat := ARGB_4444,
           img_dataIsTwiddled := False,
           img_containsNormalData := False,
           img_hasBorder := False,
           img_isCubeMap := False,
           img_mipmapsHaveDebugColoring := False,
           img_isVolumeTexture := False,
           img_hasAlphaChannel_pvrtc := False,
           img_isVerticallyFlipped := False,
           img_bitDepth := 0,
           img_isLittleEndian := True \<rparr>"

text \<open>\<^verbatim>\<open>ConstructImage\<close>: the constructor resets the format; the vector of mipmaps is empty.\<close>

definition ConstructImage :: pvrNativeImage where
  "ConstructImage =
     \<lparr> img_pixelFormat = ARGB_4444, img_dataIsTwiddled = False, img_containsNormalData = False,
       img_hasBorder = False, img_isCubeMap = False, img_mipmapsHaveDebugColoring = False,
       img_isVolumeTexture = False, img_hasAlphaChannel_pvrtc = False,
       img_isVerticallyFlipped = False, img_bitDepth = 0, img_mipmaps = [],
       img_isLittleEndian = True \<rparr>"

section \<open>Collaborators of the reader\<close>

text \<open>
  Modelled from the spec: \<^verbatim>\<open>mipGenLevelGenerator\<close> is not part of the sources at hand.
  Section 4.5 of the specification: the sequence of level sizes follows a standard
  halving-with-floor-at-1 generator from the base width and height, and traversal stops
  when no further level can be established.  A level is valid when neither dimension is
  0; the next level exists unless both dimensions are 1.  The source constructs the
  generator from \<^verbatim>\<open>uint32\<close> values and stores the level dimensions in \<^verbatim>\<open>uint32\<close>
  variables.
\<close>

record mipGenLevelGenerator =
  mipWidth :: uint32
  mipHeight :: uint32

definition mipGenLevelGenerator :: "uint32 \<Rightarrow> uint32 \<Rightarrow> mipGenLevelGenerator" where
  "mipGenLevelGenerator baseWidth baseHeight = \<lparr> mipWidth = baseWidth, mipHeight = baseHeight \<rparr>"

definition isValidLevel :: "mipGenLevelGenerator \<Rightarrow> bool" where
  "isValidLevel this = (mipWidth this \<noteq> 0 \<and> mipHeight this \<noteq> 0)"

definition incrementLevel :: "mipGenLevelGenerator \<Rightarrow> bool \<times> mipGenLevelGenerator" where
  "incrementLevel this =
     (if mipWidth this \<noteq> 1 \<or> mipHeight this \<noteq> 1
      then (True, \<lparr> mipWidth = max (mipWidth this div 2) 1, mipHeight = max (mipHeight this div 2) 1 \<rparr>)
      else (False, this))"

definition getLevelWidth :: "mipGenLevelGenerator \<Rightarrow> uint32" where
  "getLevelWidth this = mipWidth this"

definition getLevelHeight :: "mipGenLevelGenerator \<Rightarrow> uint32" where
  "getLevelHeight this = mipHeight this"

text \<open>
  Modelled from the spec: \<^verbatim>\<open>nativeTextureSizeRules\<close> is not part of the sources at hand.
  Section 4.6 of the specification: with the rules \<^verbatim>\<open>powerOfTwo\<close> and \<^verbatim>\<open>squared\<close> set,
  width and height must both be an equal power of two.  The dimensions are 32-bit values.
\<close>

record nativeTextureSizeRules =
  powerOfTwo :: bool
  squared :: bool

definition isPowerOfTwo :: "nat \<Rightarrow> bool" where
  "isPowerOfTwo n =
     (n \<in> set [1, 2, 4, 8, 16, 32, 64, 128, 256, 512, 1024, 2048, 4096, 8192, 16384, 32768, 65536,
                131072, 262144, 524288, 1048576, 2097152, 4194304, 8388608, 16777216, 33554432,
                67108864, 134217728, 268435456, 536870912, 1073741824, 2147483648])"

definition IsMipmapSizeValid :: "nativeTextureSizeRules \<Rightarrow> nat \<Rightarrow> nat \<Rightarrow> bool" where
  "IsMipmapSizeValid this width height =
     ((if powerOfTwo this then isPowerOfTwo width \<and> isPowerOfTwo height else True) \<and>
      (if squared this then width = height else True))"

text \<open>
  Modelled from the spec: \<^verbatim>\<open>checkAhead\<close> (streamutil.hxx) is not part of the sources at
  hand.  Section 4.6 of the specification: the load is rejected if the stream has
  insufficient remaining bytes.
\<close>

definition checkAhead :: "Stream \<Rightarrow> nat \<Rightarrow> bool" where
  "checkAhead stream count = (count \<le> length stream)"

section \<open>\<^verbatim>\<open>ReadNativeImage\<close> (lines 3363-3593)\<close>

text \<open>
  What the body of the \<^verbatim>\<open>while\<close> loop reads and writes apart from \<^verbatim>\<open>mip_index\<close>: the
  level generator, the remaining declared surface size (a \<^verbatim>\<open>uint32\<close>), the engine
  interface, the image and the stream.
\<close>

record level_state =
  ls_mipGen :: mipGenLevelGenerator
  ls_remaining_surfDataSize :: uint32
  ls_engineInterface :: Interface
  ls_natImg :: pvrNativeImage
  ls_inputStream :: Stream

datatype 'a loop_step = Break 'a | Continue 'a

text \<open>
  One pass through the body of the loop, up to \<^verbatim>\<open>mip_index++\<close>.  An exception carries
  the state in which it is thrown.  The dimensions, the row size and the data size are
  \<^verbatim>\<open>uint32\<close> as in the source; \<^verbatim>\<open>checkAhead\<close>, \<^verbatim>\<open>PixelAllocate\<close> and \<^verbatim>\<open>read\<close> take the
  data size as a number of bytes.
\<close>

definition ReadNativeImage_level ::
  "(uint32 \<Rightarrow> uint32 \<times> uint32) \<Rightarrow> ePVRLegacyPixelFormat \<Rightarrow> uint32 \<Rightarrow> nat \<Rightarrow> level_state \<Rightarrow>
   RwException \<times> level_state + level_state loop_step" where
  "ReadNativeImage_level blockDims pixelFormat format_bitDepth mip_index st =
     (case (if mip_index \<noteq> 0 then incrementLevel (ls_mipGen st) else (True, ls_mipGen st)) of
        (didEstablishLevel, mipGen) \<Rightarrow>
      let st = st\<lparr> ls_mipGen := mipGen \<rparr> in
      if \<not> didEstablishLevel then Inr (Break st)
      else
        let mipLayerWidth = getLevelWidth mipGen;
            mipLayerHeight = getLevelHeight mipGen
        in case getPVRLegacyFormatSurfaceDimensions blockDims pixelFormat mipLayerWidth mipLayerHeight of
             (mipSurfWidth, mipSurfHeight) \<Rightarrow>
        let texRowSize = getPVRNativeImageRasterDataRowSize mipSurfWidth format_bitDepth;
            texDataSize = getRasterDataSizeByRowSize texRowSize mipSurfHeight
        in
        if ls_remaining_surfDataSize st < texDataSize then Inl (TooLittleSurfaceData, st)
        else
          let st = st\<lparr> ls_remaining_surfDataSize := ls_remaining_surfDataSize st - texDataSize \<rparr> in
          if \<not> checkAhead (ls_inputStream st) (unat texDataSize) then Inl (NotEnoughStreamData, st)
          else
            case PixelAllocate (ls_engineInterface st) (unat texDataSize) of (mipTexels, engineInterface) \<Rightarrow>
            let st = st\<lparr> ls_engineInterface := engineInterface \<rparr> in
            if mipTexels = 0 then Inl (MipmapAllocationFailed, st)
            else
              case stream_read (ls_inputStream st) (unat texDataSize) of (readData, inputStream) \<Rightarrow>
              let st = st\<lparr> ls_inputStream := inputStream,
                           ls_engineInterface := engineInterface
                             \<lparr> pixels := (pixels engineInterface)(mipTexels \<mapsto> readData) \<rparr> \<rparr>
              in
              if length readData \<noteq> unat texDataSize
              then Inl (ImpartialMipmapRead,
                        st\<lparr> ls_engineInterface := PixelFree (ls_engineInterface st) mipTexels \<rparr>)
              else
                let newLayer = \<lparr> mip_width = mipSurfWidth, mip_height = mipSurfHeight,
                                  mip_layerWidth = mipLayerWidth, mip_layerHeight = mipLayerHeight,
                                  mip_texels = mipTexels, mip_dataSize = texDataSize \<rparr>
                in Inr (Continue
                     (st\<lparr> ls_natImg := (ls_natImg st)
                            \<lparr> img_mipmaps := img_mipmaps (ls_natImg st) @ [newLayer] \<rparr> \<rparr>)))"

text \<open>
  The loop \<^verbatim>\<open>while ( mip_index < mipmapCount )\<close>.  It returns the value of \<^verbatim>\<open>mip_index\<close>
  with the state when it ends.
\<close>

function ReadNativeImage_levels ::
  "(uint32 \<Rightarrow> uint32 \<times> uint32) \<Rightarrow> ePVRLegacyPixelFormat \<Rightarrow> uint32 \<Rightarrow> nat \<Rightarrow> nat \<Rightarrow> level_state \<Rightarrow>
   RwException \<times> level_state + nat \<times> level_state" where
  "ReadNativeImage_levels blockDims pixelFormat format_bitDepth mipmapCount mip_index st =
     (if mip_index < mipmapCount then
        (case ReadNativeImage_level blockDims pixelFormat format_bitDepth mip_index st of
           Inl e \<Rightarrow> Inl e
         | Inr (Break st') \<Rightarrow> Inr (mip_index, st')
         | Inr (Continue st') \<Rightarrow>
             ReadNativeImage_levels blockDims pixelFormat format_bitDepth mipmapCount (mip_index + 1) st')
      else Inr (mip_index, st))"
  by pat_completeness auto
termination
  by (relation "measure (\<lambda>(blockDims, pixelFormat, format_bitDepth, mipmapCount, mip_index, st).
                           mipmapCount - mip_index)") auto

type_synonym world = "Interface \<times> pvrNativeImage \<times> Stream"

text \<open>
  \<^verbatim>\<open>ReadNativeImage\<close>, in three parts that follow each other in the source: the header
  and its validation (lines 3363-3460), then storing the properties and reading the
  colour data (lines 3462-3576), then the code after the loop (lines 3578-3593).  The
  header fields are 32-bit words, and \<^verbatim>\<open>mipmapCount++\<close> is the addition on 32-bit words.
  The loop counts \<^verbatim>\<open>mip_index\<close> from 0 up to the value of \<^verbatim>\<open>mipmapCount\<close> at most, so it is
  kept as a natural number.
  The result is the exception with the engine interface, the image and the stream as they
  are when it is thrown, or these three when the function returns.
\<close>

definition ReadNativeImage_finish :: "nat \<Rightarrow> nat \<times> level_state \<Rightarrow> world" where
  "ReadNativeImage_finish mipmapCount loop_result =
     (case loop_result of (mip_index, st) \<Rightarrow>
      let engineInterface = ls_engineInterface st;
          inputStream = ls_inputStream st;
          remaining_surfDataSize = ls_remaining_surfDataSize st;
          engineInterface =
            (if mip_index \<noteq> mipmapCount
             then PushWarning engineInterface MoreMipmapLayersThanCouldBeRead
             else engineInterface)
      in
      if remaining_surfDataSize \<noteq> 0
      then (PushWarning engineInterface HasSurfaceMetaData, ls_natImg st,
            stream_skip inputStream (unat remaining_surfDataSize))
      else (engineInterface, ls_natImg st, inputStream))"

definition ReadNativeImage_body ::
  "(uint32 \<Rightarrow> uint32 \<times> uint32) \<Rightarrow> legacy_header \<Rightarrow> Interface \<Rightarrow> pvrNativeImage \<Rightarrow> Stream \<Rightarrow>
   RwException \<times> world + world" where
  "ReadNativeImage_body blockDims h engineInterface natImg inputStream =
     (let width = widthOut h;
          height = heightOut h;
          formatField = formatFieldOut h;
          surfaceSize = surfaceSizeOut h;
          isLittleEndian = isLittleEndianOut h;
          mipmapCount = unat (mipmapCountOut h + 1);
          pixelFormat = ff_pixelFormat formatField;
          format_bitDepth = getPVRLegacyFormatDepth pixelFormat;
          isTwiddled = ff_dataIsTwiddled formatField;
          natImg = natImg
            \<lparr> img_pixelFormat := pixelFormat,
              img_dataIsTwiddled := isTwiddled,
              img_containsNormalData := ff_containsNormalData formatField,
              img_hasBorder := ff_hasBorder formatField,
              img_isCubeMap := False,
              img_mipmapsHaveDebugColoring := ff_mipmapsHaveDebugColoring formatField,
              img_isVolumeTexture := False,
              img_hasAlphaChannel_pvrtc := ff_hasAlphaChannel_pvrtc formatField,
              img_isVerticallyFlipped := ff_isVerticallyFlipped formatField,
              img_bitDepth := format_bitDepth,
              img_isLittleEndian := isLittleEndian \<rparr>;
          mipGen = mipGenLevelGenerator width height
      in
      if \<not> isValidLevel mipGen
      then Inl (InvalidImageDimensions, (engineInterface, natImg, inputStream))
      else
        (case ReadNativeImage_levels blockDims pixelFormat format_bitDepth mipmapCount 0
                \<lparr> ls_mipGen = mipGen, ls_remaining_surfDataSize = surfaceSize,
                  ls_engineInterface = engineInterface, ls_natImg = natImg,
                  ls_inputStream = inputStream \<rparr> of
           Inl (e, st) \<Rightarrow> Inl (e, (ls_engineInterface st, ls_natImg st, ls_inputStream st))
         | Inr loop_result \<Rightarrow> Inr (ReadNativeImage_finish mipmapCount loop_result)))"

definition ReadNativeImage ::
  "(uint32 \<Rightarrow> uint32 \<times> uint32) \<Rightarrow> Interface \<Rightarrow> pvrNativeImage \<Rightarrow> Stream \<Rightarrow> RwException \<times> world + world" where
  "ReadNativeImage blockDims engineInterface natImg inputStream =
     (case readLegacyVersionHeader inputStream of
        (None, inputStream) \<Rightarrow> Inl (InvalidPVRNativeImage, (engineInterface, natImg, inputStream))
      | (Some h, inputStream) \<Rightarrow>
        let width = widthOut h;
            height = heightOut h;
            formatField = formatFieldOut h;
            bitsPerPixel = bitsPerPixelOut h;
            pixelFormat = ff_pixelFormat formatField
        in
        if \<not> isValidPVRLegacyPixelFormat pixelFormat
        then Inl (InvalidPixelFormat, (engineInterface, natImg, inputStream))
        else
          let format_bitDepth = getPVRLegacyFormatDepth pixelFormat;
              engineInterface =
                (if bitsPerPixel \<noteq> format_bitDepth
                 then PushWarning engineInterface InvalidBitsPerPixel else engineInterface)
          in
          if ff_isCubeMap formatField
          then Inl (CubemapNotSupported, (engineInterface, natImg, inputStream))
          else if ff_isVolumeTexture formatField
          then Inl (VolumeTextureNotSupported, (engineInterface, natImg, inputStream))
          else if ff_isVerticallyFlipped formatField
          then Inl (VerticallyFlippedNotSupported, (engineInterface, natImg, inputStream))
          else
            let isTwiddled = ff_dataIsTwiddled formatField in
            if isTwiddled \<and>
               \<not> IsMipmapSizeValid \<lparr> powerOfTwo = True, squared = True \<rparr> (unat width) (unat height)
            then Inl (TwiddledNotPOTAndSquared, (engineInterface, natImg, inputStream))
            else
              let colorFormatType = getPVRLegacyPixelFormatType pixelFormat in
              if isTwiddled \<and> colorFormatType \<noteq> COMPRESSED
              then Inl (TwiddledNotSupported, (engineInterface, natImg, inputStream))
              else ReadNativeImage_body blockDims h engineInterface natImg inputStream)"




text \<open>
  An engine interface to run the reader on concrete inputs: no live buffers, every
  allocation succeeds, warnings are recorded.  The PVRTC block dimensions follow the
  comment of the source (\<^verbatim>\<open>16x8 or 8x8 block compresion\<close>).
\<close>

definition sample_Interface :: Interface where
  "sample_Interface =
     \<lparr> pixels = Map.empty, next_ptr = 1, alloc_calls = 0, alloc_policy = (\<lambda>k. True),
       warningLevel = 1, warnings = [] \<rparr>"

definition sample_blockDims :: "uint32 \<Rightarrow> uint32 \<times> uint32" where
  "sample_blockDims depth = (if depth = 2 then (16, 8) else (8, 8))"

text \<open>
  Files to run the reader on, all with a little-endian version 1 header (size 44, then
  height, width, mipmap count minus one, flags, surface size, bits per pixel and four
  masks):
  \<^item> \<open>file_2x2\<close>: ARGB_4444, 2 by 2, two levels of 8 and 2 bytes;
  \<^item> \<open>file_twiddled_100x50\<close>: DXT1, twiddled, width 100 and height 50;
  \<^item> \<open>file_twiddled_64x64_raw\<close>: ARGB_8888, twiddled, 64 by 64;
  \<^item> \<open>file_twiddled_64x64_dxt1\<close>: DXT1, twiddled, 64 by 64, one level of 2048 bytes;
  \<^item> \<open>file_count_wraps\<close>: ARGB_4444, 1 by 1, mipmap count field 0xFFFFFFFF, surface size 0;
  \<^item> \<open>file_big_endian\<close>: the big-endian form of a version 1 file: ARGB_4444, 1 by 1, one
    level of 2 bytes;
  \<^item> \<open>file_width_wraps\<close>: DXT1, width 0xFFFFFFFF and height 1, surface size 0, no data;
  \<^item> \<open>file_size_wraps\<close>: ARGB_8888, width 13325 and height 80581, surface size 4, 4 bytes
    of data.
\<close>

definition file_2x2 :: Stream where
  "file_2x2 =
     [44, 0, 0, 0] @
     [2, 0, 0, 0,  2, 0, 0, 0,  1, 0, 0, 0,  0, 1, 0, 0,  10, 0, 0, 0,  16, 0, 0, 0] @
     replicate 16 0 @ [1, 2, 3, 4, 5, 6, 7, 8, 9, 10]"

definition file_twiddled_100x50 :: Stream where
  "file_twiddled_100x50 =
     [44, 0, 0, 0] @
     [50, 0, 0, 0,  100, 0, 0, 0,  0, 0, 0, 0,  32, 2, 0, 0,  0, 8, 0, 0,  4, 0, 0, 0] @
     replicate 16 0 @ replicate 2704 0"

definition file_twiddled_64x64_raw :: Stream where
  "file_twiddled_64x64_raw =
     [44, 0, 0, 0] @
     [64, 0, 0, 0,  64, 0, 0, 0,  0, 0, 0, 0,  5, 2, 0, 0,  0, 64, 0, 0,  32, 0, 0, 0] @
     replicate 16 0 @ replicate 16384 0"

definition file_twiddled_64x64_dxt1 :: Stream where
  "file_twiddled_64x64_dxt1 =
     [44, 0, 0, 0] @
     [64, 0, 0, 0,  64, 0, 0, 0,  0, 0, 0, 0,  32, 2, 0, 0,  0, 8, 0, 0,  4, 0, 0, 0] @
     replicate 16 0 @ replicate 2048 0"

definition file_count_wraps :: Stream where
  "file_count_wraps =
     [44, 0, 0, 0] @
     [1, 0, 0, 0,  1, 0, 0, 0,  255, 255, 255, 255,  0, 0, 0, 0,  0, 0, 0, 0,  16, 0, 0, 0] @
     replicate 16 0"

definition file_big_endian :: Stream where
  "file_big_endian =
     [0, 0, 0, 44] @
     [0, 0, 0, 1,  0, 0, 0, 1,  0, 0, 0, 0,  0, 0, 0, 0,  0, 0, 0, 2,  0, 0, 0, 16] @
     replicate 16 0 @ [7, 7]"



declare ReadNativeImage_levels.simps [simp del]

section \<open>\<^verbatim>\<open>ReadFromNativeTexture\<close> (lines 1375-1468 and 1868-2271)\<close>

text \<open>
  The enumerations of the framework, with the enumerators that the source names
  (renderware.h is not part of the sources at hand).
\<close>

datatype eRasterFormat =
    RASTER_DEFAULT | RASTER_1555 | RASTER_565 | RASTER_4444 | RASTER_LUM | RASTER_8888
  | RASTER_888 | RASTER_16 | RASTER_24 | RASTER_32 | RASTER_555 | RASTER_LUM_ALPHA

datatype eColorOrdering = COLOR_RGBA | COLOR_BGRA | COLOR_ABGR

datatype ePaletteType = PALETTE_NONE | PALETTE_4BIT | PALETTE_8BIT | PALETTE_4BIT_LSB

datatype eCompressionType =
    RWCOMPRESS_NONE | RWCOMPRESS_DXT1 | RWCOMPRESS_DXT2 | RWCOMPRESS_DXT3 | RWCOMPRESS_DXT4
  | RWCOMPRESS_DXT5 | RWCOMPRESS_OTHER

datatype ePVRInternalFormat =
    GL_COMPRESSED_RGB_PVRTC_4BPPV1_IMG | GL_COMPRESSED_RGB_PVRTC_2BPPV1_IMG
  | GL_COMPRESSED_RGBA_PVRTC_4BPPV1_IMG | GL_COMPRESSED_RGBA_PVRTC_2BPPV1_IMG
  | GL_OTHER_INTERNAL_FORMAT

definition getPVRLegacyRawColorFormatLink ::
  "eRasterFormat \<Rightarrow> uint32 \<Rightarrow> eColorOrdering \<Rightarrow> ePVRLegacyPixelFormat \<times> bool" where
  "getPVRLegacyRawColorFormatLink rasterFormat depth colorOrder =
     (if rasterFormat = RASTER_1555 then (ARGB_1555_SEC, False)
      else if rasterFormat = RASTER_565 then (RGB_565_SEC, depth = 16 \<and> colorOrder = COLOR_BGRA)
      else if rasterFormat = RASTER_4444 then (ARGB_4444_SEC, depth = 16 \<and> colorOrder = COLOR_ABGR)
      else if rasterFormat = RASTER_LUM then (I8_SEC, depth = 8)
      else if rasterFormat = RASTER_8888 then
        (if colorOrder = COLOR_RGBA then (ARGB_8888_SEC, True \<and> depth = 32)
         else if colorOrder = COLOR_BGRA then (BGRA_8888, True \<and> depth = 32)
         else (ARGB_8888_SEC, False \<and> depth = 32))
      else if rasterFormat = RASTER_888 then (RGB_888_SEC, depth = 24 \<and> colorOrder = COLOR_RGBA)
      else if rasterFormat = RASTER_555 then (RGB_555_SEC, False)
      else if rasterFormat = RASTER_LUM_ALPHA then
        (if depth = 8 then (AL_44, True)
         else if depth = 16 then (AL_88, True)
         else (AL_88, False))
      else (BGRA_8888, False))"

text \<open>
  The native texture that the image is read from.  For the names \<^verbatim>\<open>Direct3D8\<close> and
  \<^verbatim>\<open>Direct3D9\<close> the record holds what \<^verbatim>\<open>d3d8FetchPixelDataFromTexture\<close> and
  \<^verbatim>\<open>d3d9FetchPixelDataFromTexture\<close> deliver (they are not part of the sources at hand):
  the source layers, the raster format, depth, row alignment and colour order, the
  palette, the compression type, the meta properties, and whether the layers are newly
  allocated.  For the name \<^verbatim>\<open>PowerVR\<close> it holds the mipmaps, the internal format and the
  alpha flag of \<^verbatim>\<open>NativeTexturePVR\<close>.
\<close>

record nativeTexture =
  nt_layers :: "mipmapLayer list"
  nt_rasterFormat :: eRasterFormat
  nt_depth :: uint32
  nt_rowAlignment :: uint32
  nt_colorOrder :: eColorOrdering
  nt_paletteType :: ePaletteType
  nt_paletteData :: nat
  nt_paletteSize :: uint32
  nt_compressionType :: eCompressionType
  nt_rasterType :: nat
  nt_autoMipmaps :: bool
  nt_cubeMap :: bool
  nt_hasAlpha :: bool
  nt_isNewlyAllocated :: bool
  nt_internalFormat :: ePVRInternalFormat

text \<open>
  What the conversion uses and the sources at hand do not define is a parameter:
  \<^verbatim>\<open>doesPixelDataNeedAddressabilityAdjustment\<close>, and \<^verbatim>\<open>copyTexelDataEx\<close>, which for the
  level of a given index either throws (\<open>None\<close>) or fills the destination buffer.
\<close>

record import_env =
  doesPixelDataNeedAddressabilityAdjustment :: "mipmapLayer list \<Rightarrow> uint32 \<Rightarrow> uint32 \<Rightarrow> uint32 \<Rightarrow> uint32 \<Rightarrow> bool"
  copyTexelDataEx :: "nat \<Rightarrow> byte list option"

text \<open>
  Modelled from the spec: \<^verbatim>\<open>genmip::deleteMipmapLayers\<close> is not part of the sources at
  hand.  Section 4.7 of the specification: the buffers of the layers are freed.  A layer
  without buffer has the null pointer as its texels, as a layer that \<^verbatim>\<open>resize\<close> creates.
\<close>

definition deleteMipmapLayers :: "Interface \<Rightarrow> mipmapLayer list \<Rightarrow> Interface" where
  "deleteMipmapLayers engineInterface mipmaps =
     fold (\<lambda>layer engineInterface.
             if mip_texels layer \<noteq> 0 then PixelFree engineInterface (mip_texels layer)
             else engineInterface)
          mipmaps engineInterface"

definition default_mipmapLayer :: mipmapLayer where
  "default_mipmapLayer =
     \<lparr> mip_width = 0, mip_height = 0, mip_layerWidth = 0, mip_layerHeight = 0,
       mip_texels = 0, mip_dataSize = 0 \<rparr>"

text \<open>
  The state of the conversion loop (lines 2068-2132) apart from the index \<open>n\<close>: the engine
  interface, the source layers and the conversion layers.
\<close>

record conv_state =
  cs_engineInterface :: Interface
  cs_srcLayers :: "mipmapLayer list"
  cs_convLayers :: "mipmapLayer list"

text \<open>
  One pass through the body of the loop.  The inner \<^verbatim>\<open>catch\<close> frees the destination
  buffer of the level and throws again.
\<close>

definition convert_layer ::
  "import_env \<Rightarrow> uint32 \<Rightarrow> uint32 \<Rightarrow> uint32 \<Rightarrow> bool \<Rightarrow> nat \<Rightarrow> conv_state \<Rightarrow> RwException \<times> conv_state + conv_state" where
  "convert_layer env frm_pvrDepth frm_pvrRowAlignment pvrDepth srcLayersIsNewlyAllocated n st =
     (let srcLayer = cs_srcLayers st ! n;
          layerWidth = mip_layerWidth srcLayer;
          layerHeight = mip_layerHeight srcLayer;
          srcTexels = mip_texels srcLayer;
          srcDataSize = mip_dataSize srcLayer;
          srcRowSize = getRasterDataRowSize layerWidth frm_pvrDepth frm_pvrRowAlignment;
          dstRowSize = getPVRNativeImageRasterDataRowSize layerWidth pvrDepth;
          dstDataSize = getRasterDataSizeByRowSize dstRowSize layerHeight
      in case PixelAllocate (cs_engineInterface st) (unat dstDataSize) of (dstTexels, engineInterface) \<Rightarrow>
         let st = st\<lparr> cs_engineInterface := engineInterface \<rparr> in
         if dstTexels = 0 then Inl (ConversionLayerAllocationFailed, st)
         else
           (case copyTexelDataEx env n of
              None \<Rightarrow> Inl (ConversionFailed,
                           st\<lparr> cs_engineInterface := PixelFree engineInterface dstTexels \<rparr>)
            | Some converted \<Rightarrow>
                let engineInterface =
                      engineInterface\<lparr> pixels := (pixels engineInterface)(dstTexels \<mapsto> converted) \<rparr>;
                    st = (if srcLayersIsNewlyAllocated
                          then st\<lparr> cs_engineInterface := PixelFree engineInterface srcTexels,
                                   cs_srcLayers := (cs_srcLayers st)[n := srcLayer\<lparr> mip_texels := 0 \<rparr>] \<rparr>
                          else st\<lparr> cs_engineInterface := engineInterface \<rparr>);
                    newLayer = \<lparr> mip_width = layerWidth, mip_height = layerHeight,
                                 mip_layerWidth = layerWidth, mip_layerHeight = layerHeight,
                                 mip_texels = dstTexels, mip_dataSize = dstDataSize \<rparr>
                in Inr (st\<lparr> cs_convLayers := (cs_convLayers st)[n := newLayer] \<rparr>)))"

text \<open>The loop \<^verbatim>\<open>for ( size_t n = 0; n < mipmapCount; n++ )\<close>.\<close>

function convert_layers ::
  "import_env \<Rightarrow> uint32 \<Rightarrow> uint32 \<Rightarrow> uint32 \<Rightarrow> bool \<Rightarrow> nat \<Rightarrow> nat \<Rightarrow> conv_state \<Rightarrow>
   RwException \<times> conv_state + conv_state" where
  "convert_layers env frm_pvrDepth frm_pvrRowAlignment pvrDepth srcLayersIsNewlyAllocated mipmapCount n st =
     (if n < mipmapCount then
        (case convert_layer env frm_pvrDepth frm_pvrRowAlignment pvrDepth srcLayersIsNewlyAllocated n st of
           Inl e \<Rightarrow> Inl e
         | Inr st' \<Rightarrow>
             convert_layers env frm_pvrDepth frm_pvrRowAlignment pvrDepth srcLayersIsNewlyAllocated
               mipmapCount (n + 1) st')
      else Inr st)"
  by pat_completeness auto
termination
  by (relation "measure (\<lambda>(env, frm_pvrDepth, frm_pvrRowAlignment, pvrDepth,
                            srcLayersIsNewlyAllocated, mipmapCount, n, st). mipmapCount - n)") auto

declare convert_layers.simps [simp del]

text \<open>
  The block \<^verbatim>\<open>if ( !canDirectlyAcquire )\<close> (lines 2048-2145): the conversion layers are
  created by \<^verbatim>\<open>resize\<close>, the loop runs inside \<^verbatim>\<open>try\<close>, and the \<^verbatim>\<open>catch\<close> deletes the
  conversion layers and throws again.  On success the conversion layers replace the source
  layers, which then count as newly allocated.  The result carries the engine interface,
  the source layers and the flag \<^verbatim>\<open>srcLayersIsNewlyAllocated\<close>.
\<close>

type_synonym layers_state = "Interface \<times> mipmapLayer list \<times> bool"

definition convert_to_pvr ::
  "import_env \<Rightarrow> uint32 \<Rightarrow> uint32 \<Rightarrow> uint32 \<Rightarrow> layers_state \<Rightarrow> RwException \<times> layers_state + layers_state" where
  "convert_to_pvr env frm_pvrDepth frm_pvrRowAlignment pvrDepth ls =
     (case ls of (engineInterface, srcLayers, srcLayersIsNewlyAllocated) \<Rightarrow>
      let mipmapCount = length srcLayers;
          convLayers = replicate mipmapCount default_mipmapLayer
      in case convert_layers env frm_pvrDepth frm_pvrRowAlignment pvrDepth srcLayersIsNewlyAllocated
                mipmapCount 0
                \<lparr> cs_engineInterface = engineInterface, cs_srcLayers = srcLayers,
                  cs_convLayers = convLayers \<rparr> of
           Inl (e, st) \<Rightarrow>
             Inl (e, (deleteMipmapLayers (cs_engineInterface st) (cs_convLayers st),
                      cs_srcLayers st, srcLayersIsNewlyAllocated))
         | Inr st \<Rightarrow> Inr (cs_engineInterface st, cs_convLayers st, True))"

text \<open>
  Whether the layers of a raw-sample texture can be taken as they are (lines 2017-2045):
  no palette, a format link that allows it, and no row alignment error.
\<close>

definition canDirectlyAcquire :: "import_env \<Rightarrow> nativeTexture \<Rightarrow> mipmapLayer list \<Rightarrow> bool" where
  "canDirectlyAcquire env nativeTex srcLayers =
     (case getPVRLegacyRawColorFormatLink (nt_rasterFormat nativeTex) (nt_depth nativeTex)
             (nt_colorOrder nativeTex) of
        (pvrPixelFormat, canDirectlyAcquireColor) \<Rightarrow>
      let dstRowAlignment = getPVRNativeImageRowAlignment;
          pvrDepth = getPVRLegacyFormatDepth pvrPixelFormat;
          canDirectlyAcquire =
            (nt_paletteType nativeTex = PALETTE_NONE \<and> canDirectlyAcquireColor)
      in if canDirectlyAcquire then
           (let alignError =
                  doesPixelDataNeedAddressabilityAdjustment env srcLayers
                    (nt_depth nativeTex) (nt_rowAlignment nativeTex) pvrDepth dstRowAlignment
            in if alignError then False else canDirectlyAcquire)
         else canDirectlyAcquire)"

record acquireFeedback_t =
  hasDirectlyAcquired :: bool
  hasDirectlyAcquiredPalette :: bool

text \<open>
  The body of the outer \<^verbatim>\<open>try\<close> (lines 2001-2241).  An exception carries the engine
  interface, the source layers and the flag as they are when it reaches the outer
  \<^verbatim>\<open>catch\<close>; the normal result carries the engine interface, the image as written and the
  flag.
\<close>

definition write_image ::
  "pvrNativeImage \<Rightarrow> mipmapLayer list \<Rightarrow> ePVRLegacyPixelFormat \<Rightarrow> bool \<Rightarrow> bool \<Rightarrow> uint32 \<Rightarrow> bool \<Rightarrow>
   pvrNativeImage" where
  "write_image natImg srcLayers pvrPixelFormat texCubeMap pvr_hasAlphaChannel_pvrtc pvrDepth
     isLittleEndian =
     natImg\<lparr> img_mipmaps := srcLayers,
             img_pixelFormat := pvrPixelFormat,
             img_dataIsTwiddled := False,
             img_containsNormalData := False,
             img_hasBorder := False,
             img_isCubeMap := texCubeMap,
             img_mipmapsHaveDebugColoring := False,
             img_isVolumeTexture := False,
             img_hasAlphaChannel_pvrtc := pvr_hasAlphaChannel_pvrtc,
             img_isVerticallyFlipped := False,
             img_bitDepth := pvrDepth,
             img_isLittleEndian := isLittleEndian \<rparr>"

definition ReadFromNativeTexture_try ::
  "import_env \<Rightarrow> pvrNativeImage \<Rightarrow> bool \<Rightarrow> bool \<Rightarrow> nativeTexture \<Rightarrow> bool \<Rightarrow> layers_state \<Rightarrow>
   RwException \<times> layers_state + Interface \<times> pvrNativeImage \<times> bool" where
  "ReadFromNativeTexture_try env natImg isFrameworkData isPVRTC nativeTex texCubeMap ls =
     (case ls of (engineInterface, srcLayers, srcLayersIsNewlyAllocated) \<Rightarrow>
      let isLittleEndian = True;
          frm_pvrCompressionType = nt_compressionType nativeTex;
          pvrtc_comprType = nt_internalFormat nativeTex
      in
      if isFrameworkData then
        (if frm_pvrCompressionType = RWCOMPRESS_NONE then
           (case getPVRLegacyRawColorFormatLink (nt_rasterFormat nativeTex) (nt_depth nativeTex)
                   (nt_colorOrder nativeTex) of
              (pvrPixelFormat, canDirectlyAcquireColor) \<Rightarrow>
            let pvrDepth = getPVRLegacyFormatDepth pvrPixelFormat in
            if \<not> canDirectlyAcquire env nativeTex srcLayers then
              (case convert_to_pvr env (nt_depth nativeTex) (nt_rowAlignment nativeTex) pvrDepth ls of
                 Inl e \<Rightarrow> Inl e
               | Inr (engineInterface, srcLayers, srcLayersIsNewlyAllocated) \<Rightarrow>
                   Inr (engineInterface,
                        write_image natImg srcLayers pvrPixelFormat texCubeMap False pvrDepth isLittleEndian,
                        srcLayersIsNewlyAllocated))
            else
              Inr (engineInterface,
                   write_image natImg srcLayers pvrPixelFormat texCubeMap False pvrDepth isLittleEndian,
                   srcLayersIsNewlyAllocated))
         else if frm_pvrCompressionType = RWCOMPRESS_DXT1 then
           Inr (engineInterface, write_image natImg srcLayers DXT1 texCubeMap False 4 isLittleEndian,
                srcLayersIsNewlyAllocated)
         else if frm_pvrCompressionType = RWCOMPRESS_DXT2 then
           Inr (engineInterface, write_image natImg srcLayers DXT2 texCubeMap False 8 isLittleEndian,
                srcLayersIsNewlyAllocated)
         else if frm_pvrCompressionType = RWCOMPRESS_DXT3 then
           Inr (engineInterface, write_image natImg srcLayers DXT3 texCubeMap False 8 isLittleEndian,
                srcLayersIsNewlyAllocated)
         else if frm_pvrCompressionType = RWCOMPRESS_DXT4 then
           Inr (engineInterface, write_image natImg srcLayers DXT4 texCubeMap False 8 isLittleEndian,
                srcLayersIsNewlyAllocated)
         else if frm_pvrCompressionType = RWCOMPRESS_DXT5 then
           Inr (engineInterface, write_image natImg srcLayers DXT5 texCubeMap False 8 isLittleEndian,
                srcLayersIsNewlyAllocated)
         else Inl (UnsupportedCompressionType, ls))
      else if isPVRTC then
        (if pvrtc_comprType = GL_COMPRESSED_RGB_PVRTC_2BPPV1_IMG then
           Inr (engineInterface, write_image natImg srcLayers PVRTC2_SEC texCubeMap False 2 isLittleEndian,
                srcLayersIsNewlyAllocated)
         else if pvrtc_comprType = GL_COMPRESSED_RGBA_PVRTC_2BPPV1_IMG then
           Inr (engineInterface, write_image natImg srcLayers PVRTC2_SEC texCubeMap True 2 isLittleEndian,
                srcLayersIsNewlyAllocated)
         else if pvrtc_comprType = GL_COMPRESSED_RGB_PVRTC_4BPPV1_IMG then
           Inr (engineInterface, write_image natImg srcLayers PVRTC4_SEC texCubeMap False 4 isLittleEndian,
                srcLayersIsNewlyAllocated)
         else if pvrtc_comprType = GL_COMPRESSED_RGBA_PVRTC_4BPPV1_IMG then
           Inr (engineInterface, write_image natImg srcLayers PVRTC4_SEC texCubeMap True 4 isLittleEndian,
                srcLayersIsNewlyAllocated)
         else Inl (InvalidPVRTCCompressionType, ls))
      else Inr (engineInterface, natImg, srcLayersIsNewlyAllocated))"

text \<open>
  \<^verbatim>\<open>ReadFromNativeTexture\<close>.  The result is the exception with the engine interface and
  the image as they are when it leaves the function, or the engine interface, the image
  and the feedback.  The last branch of \<open>ReadFromNativeTexture_try\<close> is the
  \<^verbatim>\<open>assert( 0 )\<close> of the source, which the assertion before the \<^verbatim>\<open>try\<close> excludes.
\<close>

definition ReadFromNativeTexture ::
  "import_env \<Rightarrow> Interface \<Rightarrow> pvrNativeImage \<Rightarrow> string \<Rightarrow> nativeTexture \<Rightarrow>
   RwException \<times> Interface \<times> pvrNativeImage + Interface \<times> pvrNativeImage \<times> acquireFeedback_t" where
  "ReadFromNativeTexture env engineInterface natImg nativeTexName nativeTex =
     (if nativeTexName \<noteq> ''Direct3D8'' \<and> nativeTexName \<noteq> ''Direct3D9'' \<and>
         nativeTexName \<noteq> ''PowerVR''
      then Inl (InvalidNativeTextureType, (engineInterface, natImg))
      else
        let isFrameworkData = (nativeTexName = ''Direct3D8'' \<or> nativeTexName = ''Direct3D9'');
            isPVRTC = (nativeTexName = ''PowerVR'');
            frm_pvrPaletteData = (if isFrameworkData then nt_paletteData nativeTex else 0);
            srcLayers = nt_layers nativeTex;
            srcLayersIsNewlyAllocated = (if isPVRTC then False else nt_isNewlyAllocated nativeTex);
            frm_isPaletteNewlyAllocated = (if isFrameworkData then srcLayersIsNewlyAllocated else False);
            texCubeMap = (if nativeTexName = ''Direct3D9'' then nt_cubeMap nativeTex else False)
        in
        case ReadFromNativeTexture_try env natImg isFrameworkData isPVRTC nativeTex texCubeMap
               (engineInterface, srcLayers, srcLayersIsNewlyAllocated) of
          Inl (e, (engineInterface, srcLayers, srcLayersIsNewlyAllocated)) \<Rightarrow>
            if srcLayersIsNewlyAllocated then
              (let engineInterface = deleteMipmapLayers engineInterface srcLayers;
                   engineInterface =
                     (if frm_pvrPaletteData \<noteq> 0 then PixelFree engineInterface frm_pvrPaletteData
                      else engineInterface)
               in Inl (e, (engineInterface, natImg)))
            else Inl (e, (engineInterface, natImg))
        | Inr (engineInterface, natImg, srcLayersIsNewlyAllocated) \<Rightarrow>
            let engineInterface =
                  (if frm_isPaletteNewlyAllocated \<and> frm_pvrPaletteData \<noteq> 0
                   then PixelFree engineInterface frm_pvrPaletteData else engineInterface)
            in Inr (engineInterface, natImg,
                    \<lparr> hasDirectlyAcquired = (srcLayersIsNewlyAllocated = False),
                      hasDirectlyAcquiredPalette = False \<rparr>))"

text \<open>
  The invariant of the conversion loop before the level \<open>n\<close>, for an engine interface whose
  next fresh address was \<open>first\<close> when the loop began: the null pointer is no buffer, no
  buffer lies at or beyond the next fresh address, and the conversion layers are as many as
  the source layers, those below \<open>n\<close> with a buffer that the loop has allocated and the
  others with the null pointer.
\<close>

definition conv_inv :: "nat \<Rightarrow> nat \<Rightarrow> conv_state \<Rightarrow> bool" where
  "conv_inv first n st =
     (pixels (cs_engineInterface st) 0 = None \<and>
      0 < first \<and> first \<le> next_ptr (cs_engineInterface st) \<and>
      (\<forall>p. next_ptr (cs_engineInterface st) \<le> p \<longrightarrow> pixels (cs_engineInterface st) p = None) \<and>
      length (cs_convLayers st) = length (cs_srcLayers st) \<and>
      (\<forall>k < length (cs_convLayers st).
         if k < n
         then first \<le> mip_texels (cs_convLayers st ! k) \<and>
              mip_texels (cs_convLayers st ! k) < next_ptr (cs_engineInterface st)
         else mip_texels (cs_convLayers st ! k) = 0))"

text \<open>
  The buffers that are live once both \<^verbatim>\<open>catch\<close> blocks have run from a state of the loop:
  those of the engine interface, without the buffers of the conversion layers and, when
  the source layers are newly allocated, without theirs and the palette.
\<close>

definition rollback_pixels :: "bool \<Rightarrow> nat \<Rightarrow> conv_state \<Rightarrow> nat \<rightharpoonup> byte list" where
  "rollback_pixels srcLayersIsNewlyAllocated frm_pvrPaletteData st =
     pixels
       (let engineInterface = deleteMipmapLayers (cs_engineInterface st) (cs_convLayers st)
        in if srcLayersIsNewlyAllocated then
             (let engineInterface = deleteMipmapLayers engineInterface (cs_srcLayers st)
              in if frm_pvrPaletteData \<noteq> 0 then PixelFree engineInterface frm_pvrPaletteData
                 else engineInterface)
           else engineInterface)"

text \<open>
  A Direct3D9 texture to run the import on: two layers of 2 by 2 and 1 by 1 texels in the
  raster format 1555 at 16 bits, which has no direct mapping, with buffers 1 and 2 that
  the fetch has newly allocated; and an engine interface that holds these two buffers and
  the buffer 3 of somebody else, and whose allocator fails at the second call.
\<close>

definition sample_texture :: nativeTexture where
  "sample_texture =
     \<lparr> nt_layers =
         [\<lparr> mip_width = 2, mip_height = 2, mip_layerWidth = 2, mip_layerHeight = 2,
            mip_texels = 1, mip_dataSize = 8 \<rparr>,
          \<lparr> mip_width = 1, mip_height = 1, mip_layerWidth = 1, mip_layerHeight = 1,
            mip_texels = 2, mip_dataSize = 4 \<rparr>],
       nt_rasterFormat = RASTER_1555, nt_depth = 16, nt_rowAlignment = 4,
       nt_colorOrder = COLOR_BGRA, nt_paletteType = PALETTE_NONE, nt_paletteData = 0,
       nt_paletteSize = 0, nt_compressionType = RWCOMPRESS_NONE, nt_rasterType = 4,
       nt_autoMipmaps = False, nt_cubeMap = False, nt_hasAlpha = True,
       nt_isNewlyAllocated = True, nt_internalFormat = GL_OTHER_INTERNAL_FORMAT \<rparr>"

definition sample_import_env :: import_env where
  "sample_import_env =
     \<lparr> doesPixelDataNeedAddressabilityAdjustment = (\<lambda>layers srcDepth srcAlign dstDepth dstAlign. False),
       copyTexelDataEx = (\<lambda>n. Some []) \<rparr>"

definition sample_import_Interface :: "(nat \<Rightarrow> bool) \<Rightarrow> Interface" where
  "sample_import_Interface policy =
     \<lparr> pixels = [1 \<mapsto> replicate 8 0, 2 \<mapsto> replicate 4 0, 3 \<mapsto> [7]], next_ptr = 4,
       alloc_calls = 0, alloc_policy = policy, warningLevel = 1, warnings = [] \<rparr>"

section \<open>Properties of the pixel format table\<close>

lemmas pixelFormat_defs =
  ARGB_4444_def ARGB_1555_def RGB_565_def RGB_555_def RGB_888_def ARGB_8888_def
  ARGB_8332_def I8_def AI88_def MONOCHROME_def V_Y1_U_Y0_def Y1_V_Y0_U_def PVRTC2_def
  PVRTC4_def ARGB_4444_SEC_def ARGB_1555_SEC_def ARGB_8888_SEC_def RGB_565_SEC_def
  RGB_555_SEC_def RGB_888_SEC_def I8_SEC_def AI88_SEC_def PVRTC2_SEC_def PVRTC4_SEC_def
  BGRA_8888_def DXT1_def DXT2_def DXT3_def DXT4_def DXT5_def RGB332_def AL_44_def
  LVU_655_def XLVU_8888_def QWVU_8888_def ABGR_2101010_def ARGB_2101010_def
  AWVU_2101010_def GR_1616_def VU_1616_def ABGR_16161616_def R_16F_def GR_1616F_def
  ABGR_16161616F_def R_32F_def GR_3232F_def ABGR_32323232F_def ETC_def A8_def VU_88_def
  L16_def L8_def AL_88_def UYVY_def YUY2_def

lemma enumerators_distinct: "distinct ePVRLegacyPixelFormat_enumerators"
  by (simp add: ePVRLegacyPixelFormat_enumerators_def pixelFormat_defs)

lemma enumerators_count: "length ePVRLegacyPixelFormat_enumerators = 55"
  by (simp add: ePVRLegacyPixelFormat_enumerators_def)

lemma enumerators_8bit: "f \<in> set ePVRLegacyPixelFormat_enumerators \<Longrightarrow> f < 256"
  by (auto simp add: ePVRLegacyPixelFormat_enumerators_def pixelFormat_defs)

text \<open>
  The validity predicate accepts exactly the enumerators other than \<open>RGB_888\<close>: the chain
  of comparisons in the source has 54 entries and no entry for \<open>RGB_888\<close>.  In particular
  every reserved id is rejected.
\<close>

lemma isValidPVRLegacyPixelFormat_iff:
  "isValidPVRLegacyPixelFormat f \<longleftrightarrow> f \<in> set ePVRLegacyPixelFormat_enumerators \<and> f \<noteq> RGB_888"
  unfolding isValidPVRLegacyPixelFormat_def ePVRLegacyPixelFormat_enumerators_def pixelFormat_defs
  by auto

lemma isValidPVRLegacyPixelFormat_gaps:
  "f \<in> {14..15} \<union> {27..31} \<union> {55..63} \<union> {71..255} \<Longrightarrow> \<not> isValidPVRLegacyPixelFormat f"
  unfolding isValidPVRLegacyPixelFormat_def pixelFormat_defs
  by auto

text \<open>
  C2.  The claim: the validity predicate is true for each of the 55 enumerated pixel
  formats, \<open>RGB_888 = 4\<close> among them, and false for every other 8-bit id.  The source
  rejects \<open>RGB_888\<close>, which is an enumerator, is classified as an RGBA format and has the
  bit depth 24, while it accepts its clone \<open>RGB_888_SEC\<close>.
\<close>

theorem isValidPVRLegacyPixelFormat_rejects_RGB_888:
  "RGB_888 = 4 \<and> RGB_888 \<in> set ePVRLegacyPixelFormat_enumerators \<and>
   getPVRLegacyPixelFormatType RGB_888 = RGBA \<and> getPVRLegacyFormatDepth RGB_888 = 24 \<and>
   isValidPVRLegacyPixelFormat RGB_888_SEC \<and>
   \<not> isValidPVRLegacyPixelFormat RGB_888"
  by (simp add: isValidPVRLegacyPixelFormat_def getPVRLegacyPixelFormatType_def
      getPVRLegacyFormatDepth_def ePVRLegacyPixelFormat_enumerators_def pixelFormat_defs)

lemma getPVRLegacyFormatDepth_enumerators:
  "f \<in> set ePVRLegacyPixelFormat_enumerators \<Longrightarrow> 0 < getPVRLegacyFormatDepth f"
  unfolding ePVRLegacyPixelFormat_enumerators_def getPVRLegacyFormatDepth_def pixelFormat_defs
  by auto

lemma getPVRLegacyFormatDepth_valid:
  "isValidPVRLegacyPixelFormat f \<Longrightarrow> 0 < getPVRLegacyFormatDepth f"
  by (simp add: isValidPVRLegacyPixelFormat_iff getPVRLegacyFormatDepth_enumerators)

section \<open>Surface dimensions and byte sizes\<close>


lemma round_up_one: "round_up n (Suc 0) = n"
  by (simp add: round_up_def)












text \<open>
  No 32-bit value is a multiple of 4 that is at least \<open>0xFFFFFFFF\<close>, whatever
  \<^verbatim>\<open>ALIGN_SIZE\<close> does.
\<close>

lemma no_uint32_multiple_of_4_above:
  fixes sw :: uint32
  shows "\<not> (4 dvd unat sw \<and> 4294967295 \<le> unat sw)"
proof
  assume a: "4 dvd unat sw \<and> 4294967295 \<le> unat sw"
  have "unat sw < 2 ^ 32" using unsigned_less[of sw, where ?'a = nat] by simp
  then have "unat sw = 4294967295" using a by simp
  then show False using a by presburger
qed

section \<open>Properties of the sample codec\<close>





lemma texel_put_length: "length (texel_put e buf colorIndex item) = length buf"
  by (simp add: texel_put_def)

lemma texel_put_other:
  "j \<noteq> colorIndex \<Longrightarrow> texel_put e buf colorIndex item ! j = buf ! j"
  by (simp add: texel_put_def)



text \<open>The example of the specification: 130 in a 5-bit channel comes back as 132.\<close>

lemma spec_quantize_example:
  "scalecolor 130 255 31 = 16 \<and> scalecolor 16 31 255 = 132 \<and> spec_quantize 5 130 = 132"
  by (simp add: spec_quantize_def scalecolor_def)

text \<open>Quantizing to 8 bits changes nothing.\<close>

lemma div_510: "((n::nat) * 510 + 255) div 510 = n"
  by simp

lemma spec_quantize_8: "spec_quantize 8 v = v"
proof -
  have "(2 * unat v * 255 + 255) div 510 = unat v"
    using div_510[of "unat v"] by (simp add: mult.commute mult.left_commute)
  then show ?thesis
    by (simp add: spec_quantize_def scalecolor_def)
qed

subsection \<open>\<^verbatim>\<open>getRGBA\<close> on ABGR_16161616\<close>

text \<open>
  The branch assigns \<^verbatim>\<open>alphaOut\<close>, \<^verbatim>\<open>blueOut\<close>, \<^verbatim>\<open>greenOut\<close> and \<^verbatim>\<open>blueOut\<close> again; it never
  assigns \<^verbatim>\<open>redOut\<close>.  Whatever the stored red channel is, the caller's red value comes
  back unchanged.
\<close>

lemma getRGBA_ABGR_16161616:
  "getRGBA env (mk_pvrColorDispatcher ABGR_16161616 (getPVRLegacyPixelFormatType ABGR_16161616) e)
     srcTexels colorIndex (redOut, greenOut, blueOut, alphaOut) =
   Inr (True, (redOut,
               destscalecolor (texel_at e srcTexels colorIndex ! 2) 65535,
               destscalecolor (texel_at e srcTexels colorIndex ! 1) 65535,
               destscalecolor (texel_at e srcTexels colorIndex ! 0) 65535))"
  by (cases e)
     (simp_all add: getRGBA_def mk_pvrColorDispatcher_def getPVRLegacyPixelFormatType_def
        browsetexelrgba_def pixelFormat_defs Let_def)

text \<open>
  C3.  The claim: \<^verbatim>\<open>getRGBA\<close> on the ABGR_16161616 format returns each of red, green, blue
  and alpha as the stored 16-bit channel scaled to 8 bits.  In the source the red channel
  is not returned: for the little-endian texel with alpha, blue and green 0 and red 65535
  (which scales to 255), and output variables that hold 0 before the call, the call
  returns true with red 0.
\<close>

theorem getRGBA_ABGR_16161616_red_not_read:
  "getRGBA sample_env
     (mk_pvrColorDispatcher ABGR_16161616 (getPVRLegacyPixelFormatType ABGR_16161616) True)
     [[0, 0, 0, 65535]] 0 (0, 0, 0, 0) = Inr (True, (0, 0, 0, 0)) \<and>
   destscalecolor 65535 65535 = 255"
  by (simp add: getRGBA_def mk_pvrColorDispatcher_def getPVRLegacyPixelFormatType_def
      browsetexelrgba_def pixelFormat_defs Let_def texel_at_def endian_load_def
      destscalecolor_def scalecolor_def)

subsection \<open>\<^verbatim>\<open>setRGBA\<close> on luminance formats\<close>

text \<open>
  C4.  For every pixel format classified as luminance, every buffer, texel index and
  colour, \<^verbatim>\<open>setRGBA\<close> of the dispatcher built for that format returns false and the buffer
  is what it was.
\<close>

theorem setRGBA_luminance_writes_nothing:
  "getPVRLegacyPixelFormatType format = LUMINANCE \<Longrightarrow>
   setRGBA env (mk_pvrColorDispatcher format (getPVRLegacyPixelFormatType format) e)
     dstTexels colorIndex (red, green, blue, alpha) = Inr (False, dstTexels)"
  by (simp add: setRGBA_def mk_pvrColorDispatcher_def)

theorem setRGBA_luminance_writes_nothing_witness:
  "getPVRLegacyPixelFormatType AL_88 = LUMINANCE \<and>
   setRGBA sample_env (mk_pvrColorDispatcher AL_88 (getPVRLegacyPixelFormatType AL_88) True)
     [[1, 2], [3, 4]] 1 (10, 20, 30, 40) = Inr (False, [[1, 2], [3, 4]])"
proof -
  have h: "getPVRLegacyPixelFormatType AL_88 = LUMINANCE"
    by (simp add: getPVRLegacyPixelFormatType_def pixelFormat_defs)
  show ?thesis
    using h setRGBA_luminance_writes_nothing[OF h, of sample_env True "[[1, 2], [3, 4]]" 1 10 20 30 40]
    by simp
qed

subsection \<open>Writing a sample and reading it back\<close>



lemma getLuminance_LUMINANCE:
  "disp_colorModel this = LUMINANCE \<Longrightarrow>
   getLuminance env this srcTexels colorIndex outs =
     Inr (browsetexellum (disp_isLittleEndian this) srcTexels colorIndex (disp_pixelFormat this) outs)"
  by (cases "disp_isLittleEndian this"; cases outs)
     (simp_all add: getLuminance_def getLuminance_LUMINANCE_def)
































section \<open>Properties of the header reader\<close>

lemmas header_unfold =
  readLegacyVersionHeader_def readStreamStruct_def stream_read_def le_header_size_def
  be_header_size_def little_endian_uint32_def big_endian_uint32_def header_outputs_def
  header_uint32_def decode_formatField_def flag_bit_def Let_def

text \<open>
  Both members of the union read the four bytes as a little-endian number, so the second
  pair of comparisons repeats the first one and fails whenever it is reached: a header
  that the reader accepts is reported as little-endian, and the size field of an accepted
  header is 44 or 52 in the little-endian reading.
\<close>

lemma readLegacyVersionHeader_little_endian:
  assumes "fst (readLegacyVersionHeader inputStream) = Some h"
  shows "isLittleEndianOut h \<and> little_endian_uint32 (take 4 inputStream) \<in> {44, 52}"
  using assms
  unfolding readLegacyVersionHeader_def readStreamStruct_def stream_read_def Let_def
  by (auto simp add: header_outputs_def le_header_size_def be_header_size_def split: if_splits)

text \<open>A little-endian version 1 header is accepted.\<close>

lemma readLegacyVersionHeader_file_2x2:
  "fst (readLegacyVersionHeader file_2x2) =
     Some \<lparr> widthOut = 2, heightOut = 2, mipmapCountOut = 1,
            formatFieldOut = \<lparr> ff_pixelFormat = 0, ff_mipmapsPresent = True,
              ff_dataIsTwiddled = False, ff_containsNormalData = False, ff_hasBorder = False,
              ff_isCubeMap = False, ff_mipmapsHaveDebugColoring = False,
              ff_isVolumeTexture = False, ff_hasAlphaChannel_pvrtc = False,
              ff_isVerticallyFlipped = False \<rparr>,
            surfaceSizeOut = 10, bitsPerPixelOut = 16, redMaskOut = 0, greenMaskOut = 0,
            blueMaskOut = 0, alphaMaskOut = 0, isLittleEndianOut = True \<rparr>"
  by (simp add: file_2x2_def header_unfold)

text \<open>
  C1.  The claim: the first four bytes are read once as a little-endian and once as a
  big-endian size, and a well-formed big-endian file, whose size field is 44 or 52 only in
  the big-endian reading, is accepted and decoded as big-endian.  In the source the union
  member \<^verbatim>\<open>be_header_size\<close> is declared \<^verbatim>\<open>endian::little_endian <uint32>\<close>, so the file
  \<open>file_big_endian\<close>, whose size field reads 44 as a big-endian number, is rejected.
\<close>

theorem readLegacyVersionHeader_rejects_big_endian_file:
  "big_endian_uint32 (take 4 file_big_endian) = 44 \<and>
   little_endian_uint32 (take 4 file_big_endian) = 0x2C000000 \<and>
   be_header_size (take 4 file_big_endian) = 0x2C000000 \<and>
   length file_big_endian = 44 + 2 \<and>
   fst (readLegacyVersionHeader file_big_endian) = None"
  by (simp add: file_big_endian_def header_unfold)

section \<open>Properties of \<^verbatim>\<open>ReadNativeImage\<close>\<close>

subsection \<open>The exceptions of the loop\<close>

lemma ReadNativeImage_level_errors:
  "ReadNativeImage_level blockDims pf depth k st = Inl (e, st') \<Longrightarrow>
   e \<in> {TooLittleSurfaceData, NotEnoughStreamData, MipmapAllocationFailed, ImpartialMipmapRead}"
  by (auto simp add: ReadNativeImage_level_def Let_def split: prod.splits if_splits)

lemma ReadNativeImage_levels_errors:
  "ReadNativeImage_levels blockDims pf depth mipmapCount k st = Inl (e, st') \<Longrightarrow>
   e \<in> {TooLittleSurfaceData, NotEnoughStreamData, MipmapAllocationFailed, ImpartialMipmapRead}"
proof (induction blockDims pf depth mipmapCount k st rule: ReadNativeImage_levels.induct)
  case (1 blockDims pf depth mipmapCount k st)
  from "1.prems" have lt: "k < mipmapCount"
    by (subst (asm) ReadNativeImage_levels.simps) (simp split: if_splits)
  show ?case
  proof (cases "ReadNativeImage_level blockDims pf depth k st")
    case (Inl x)
    then have "x = (e, st')"
      using "1.prems" lt by (subst (asm) ReadNativeImage_levels.simps) simp
    then show ?thesis using Inl ReadNativeImage_level_errors by blast
  next
    case (Inr step)
    show ?thesis
    proof (cases step)
      case (Break st1)
      then show ?thesis
        using "1.prems" lt Inr by (subst (asm) ReadNativeImage_levels.simps) simp
    next
      case (Continue st1)
      then have "ReadNativeImage_levels blockDims pf depth mipmapCount (k + 1) st1 = Inl (e, st')"
        using "1.prems" lt Inr by (subst (asm) ReadNativeImage_levels.simps) simp
      then show ?thesis using "1.IH"[OF lt Inr Continue] by simp
    qed
  qed
qed

lemma ReadNativeImage_body_errors:
  "ReadNativeImage_body blockDims h engineInterface natImg inputStream = Inl (e, w) \<Longrightarrow>
   e \<in> {InvalidImageDimensions, TooLittleSurfaceData, NotEnoughStreamData,
        MipmapAllocationFailed, ImpartialMipmapRead}"
  unfolding ReadNativeImage_body_def Let_def
  by (auto split: if_splits sum.splits dest: ReadNativeImage_levels_errors)

subsection \<open>Validation of the twiddled flag\<close>

lemma compressed_valid:
  assumes "getPVRLegacyPixelFormatType f = COMPRESSED"
  shows "isValidPVRLegacyPixelFormat f"
proof -
  have "f \<in> set [V_Y1_U_Y0, Y1_V_Y0_U, PVRTC2, PVRTC4, PVRTC2_SEC, PVRTC4_SEC,
                   DXT1, DXT2, DXT3, DXT4, DXT5, ETC, UYVY, YUY2]"
    using assms unfolding getPVRLegacyPixelFormatType_def by (simp split: if_splits)
  then show ?thesis
    unfolding isValidPVRLegacyPixelFormat_def by auto
qed

text \<open>
  C6.  For a stream whose header is accepted and has the flag \<^verbatim>\<open>dataIsTwiddled\<close> set:
  if width and height are not an equal power of two, the load fails, with the exception
  of the twiddling check or of one of the checks before it; if the format is classified as
  RGBA or luminance, the load fails in the same way, whatever the dimensions; if the
  dimensions are an equal power of two and the format is classified as compressed, no
  exception of the twiddling checks is thrown, and unless the cube map, volume or flip
  flag is set, the load goes on to store the properties and to read the colour data.
\<close>

theorem ReadNativeImage_twiddled_validation:
  assumes "fst (readLegacyVersionHeader inputStream) = Some h"
    and "ff_dataIsTwiddled (formatFieldOut h)"
  shows
    "(\<not> IsMipmapSizeValid \<lparr> powerOfTwo = True, squared = True \<rparr>
          (unat (widthOut h)) (unat (heightOut h)) \<longrightarrow>
        (\<exists>e w. ReadNativeImage blockDims engineInterface natImg inputStream = Inl (e, w) \<and>
               e \<in> {InvalidPixelFormat, CubemapNotSupported, VolumeTextureNotSupported,
                    VerticallyFlippedNotSupported, TwiddledNotPOTAndSquared})) \<and>
     (getPVRLegacyPixelFormatType (ff_pixelFormat (formatFieldOut h)) \<in> {RGBA, LUMINANCE} \<longrightarrow>
        (\<exists>e w. ReadNativeImage blockDims engineInterface natImg inputStream = Inl (e, w) \<and>
               e \<in> {InvalidPixelFormat, CubemapNotSupported, VolumeTextureNotSupported,
                    VerticallyFlippedNotSupported, TwiddledNotPOTAndSquared,
                    TwiddledNotSupported})) \<and>
     (IsMipmapSizeValid \<lparr> powerOfTwo = True, squared = True \<rparr>
          (unat (widthOut h)) (unat (heightOut h)) \<and>
      getPVRLegacyPixelFormatType (ff_pixelFormat (formatFieldOut h)) = COMPRESSED \<longrightarrow>
        (\<forall>e w. ReadNativeImage blockDims engineInterface natImg inputStream = Inl (e, w) \<longrightarrow>
               e \<notin> {TwiddledNotPOTAndSquared, TwiddledNotSupported}) \<and>
        (\<not> ff_isCubeMap (formatFieldOut h) \<and> \<not> ff_isVolumeTexture (formatFieldOut h) \<and>
         \<not> ff_isVerticallyFlipped (formatFieldOut h) \<longrightarrow>
           ReadNativeImage blockDims engineInterface natImg inputStream =
             ReadNativeImage_body blockDims h
               (if bitsPerPixelOut h \<noteq> getPVRLegacyFormatDepth (ff_pixelFormat (formatFieldOut h))
                then PushWarning engineInterface InvalidBitsPerPixel else engineInterface)
               natImg (snd (readLegacyVersionHeader inputStream))))"
proof -
  obtain s1 where hdr: "readLegacyVersionHeader inputStream = (Some h, s1)"
    using assms(1) by (cases "readLegacyVersionHeader inputStream") auto
  note tw = assms(2)
  have a: "\<not> IsMipmapSizeValid \<lparr> powerOfTwo = True, squared = True \<rparr>
          (unat (widthOut h)) (unat (heightOut h)) \<longrightarrow>
        (\<exists>e w. ReadNativeImage blockDims engineInterface natImg inputStream = Inl (e, w) \<and>
               e \<in> {InvalidPixelFormat, CubemapNotSupported, VolumeTextureNotSupported,
                    VerticallyFlippedNotSupported, TwiddledNotPOTAndSquared})"
    unfolding ReadNativeImage_def Let_def using hdr tw by simp
  have b: "getPVRLegacyPixelFormatType (ff_pixelFormat (formatFieldOut h)) \<in> {RGBA, LUMINANCE} \<longrightarrow>
        (\<exists>e w. ReadNativeImage blockDims engineInterface natImg inputStream = Inl (e, w) \<and>
               e \<in> {InvalidPixelFormat, CubemapNotSupported, VolumeTextureNotSupported,
                    VerticallyFlippedNotSupported, TwiddledNotPOTAndSquared,
                    TwiddledNotSupported})"
    unfolding ReadNativeImage_def Let_def using hdr tw by auto
  have c: "IsMipmapSizeValid \<lparr> powerOfTwo = True, squared = True \<rparr>
          (unat (widthOut h)) (unat (heightOut h)) \<and>
      getPVRLegacyPixelFormatType (ff_pixelFormat (formatFieldOut h)) = COMPRESSED \<longrightarrow>
        (\<forall>e w. ReadNativeImage blockDims engineInterface natImg inputStream = Inl (e, w) \<longrightarrow>
               e \<notin> {TwiddledNotPOTAndSquared, TwiddledNotSupported})"
    unfolding ReadNativeImage_def Let_def using hdr tw
    by (auto split: if_splits dest: ReadNativeImage_body_errors)
  have valid: "getPVRLegacyPixelFormatType (ff_pixelFormat (formatFieldOut h)) = COMPRESSED \<Longrightarrow>
      isValidPVRLegacyPixelFormat (ff_pixelFormat (formatFieldOut h))"
    by (rule compressed_valid)
  have d: "IsMipmapSizeValid \<lparr> powerOfTwo = True, squared = True \<rparr>
          (unat (widthOut h)) (unat (heightOut h)) \<and>
      getPVRLegacyPixelFormatType (ff_pixelFormat (formatFieldOut h)) = COMPRESSED \<longrightarrow>
        (\<not> ff_isCubeMap (formatFieldOut h) \<and> \<not> ff_isVolumeTexture (formatFieldOut h) \<and>
         \<not> ff_isVerticallyFlipped (formatFieldOut h) \<longrightarrow>
           ReadNativeImage blockDims engineInterface natImg inputStream =
             ReadNativeImage_body blockDims h
               (if bitsPerPixelOut h \<noteq> getPVRLegacyFormatDepth (ff_pixelFormat (formatFieldOut h))
                then PushWarning engineInterface InvalidBitsPerPixel else engineInterface)
               natImg (snd (readLegacyVersionHeader inputStream)))"
    unfolding ReadNativeImage_def Let_def using hdr tw valid by simp
  from a b c d show ?thesis by blast
qed

lemmas reader_unfold =
  ReadNativeImage_def ReadNativeImage_body_def ReadNativeImage_finish_def
  ReadNativeImage_level_def ReadNativeImage_levels.simps
  isValidPVRLegacyPixelFormat_def getPVRLegacyFormatDepth_def getPVRLegacyPixelFormatType_def
  IsMipmapSizeValid_def isPowerOfTwo_def isValidLevel_def mipGenLevelGenerator_def
  incrementLevel_def getLevelWidth_def getLevelHeight_def
  getPVRLegacyFormatSurfaceDimensions_def getPVRNativeImageRasterDataRowSize_def
  getRasterDataRowSize_def getRasterDataSizeByRowSize_def getPVRNativeImageRowAlignment_def
  ALIGN_SIZE_def checkAhead_def PixelAllocate_def PixelFree_def PushWarning_def stream_skip_def
  sample_Interface_def sample_blockDims_def ConstructImage_def pixelFormat_defs

theorem ReadNativeImage_twiddled_validation_witness:
  "fst (readLegacyVersionHeader file_twiddled_100x50) \<noteq> None \<and>
   ff_dataIsTwiddled (formatFieldOut (the (fst (readLegacyVersionHeader file_twiddled_100x50)))) \<and>
   unat (widthOut (the (fst (readLegacyVersionHeader file_twiddled_100x50)))) = 100 \<and>
   unat (heightOut (the (fst (readLegacyVersionHeader file_twiddled_100x50)))) = 50 \<and>
   \<not> IsMipmapSizeValid \<lparr> powerOfTwo = True, squared = True \<rparr> 100 50 \<and>
   (\<exists>e w. ReadNativeImage sample_blockDims sample_Interface ConstructImage file_twiddled_100x50 =
            Inl (e, w) \<and>
          e \<in> {InvalidPixelFormat, CubemapNotSupported, VolumeTextureNotSupported,
               VerticallyFlippedNotSupported, TwiddledNotPOTAndSquared}) \<and>
   fst (readLegacyVersionHeader file_twiddled_64x64_raw) \<noteq> None \<and>
   ff_dataIsTwiddled (formatFieldOut (the (fst (readLegacyVersionHeader file_twiddled_64x64_raw)))) \<and>
   IsMipmapSizeValid \<lparr> powerOfTwo = True, squared = True \<rparr>
     (unat (widthOut (the (fst (readLegacyVersionHeader file_twiddled_64x64_raw)))))
     (unat (heightOut (the (fst (readLegacyVersionHeader file_twiddled_64x64_raw))))) \<and>
   getPVRLegacyPixelFormatType
     (ff_pixelFormat (formatFieldOut (the (fst (readLegacyVersionHeader file_twiddled_64x64_raw)))))
     \<in> {RGBA, LUMINANCE} \<and>
   (\<exists>e w. ReadNativeImage sample_blockDims sample_Interface ConstructImage file_twiddled_64x64_raw =
            Inl (e, w) \<and>
          e \<in> {InvalidPixelFormat, CubemapNotSupported, VolumeTextureNotSupported,
               VerticallyFlippedNotSupported, TwiddledNotPOTAndSquared, TwiddledNotSupported}) \<and>
   fst (readLegacyVersionHeader file_twiddled_64x64_dxt1) \<noteq> None \<and>
   ff_dataIsTwiddled (formatFieldOut (the (fst (readLegacyVersionHeader file_twiddled_64x64_dxt1)))) \<and>
   IsMipmapSizeValid \<lparr> powerOfTwo = True, squared = True \<rparr>
     (unat (widthOut (the (fst (readLegacyVersionHeader file_twiddled_64x64_dxt1)))))
     (unat (heightOut (the (fst (readLegacyVersionHeader file_twiddled_64x64_dxt1))))) \<and>
   getPVRLegacyPixelFormatType
     (ff_pixelFormat (formatFieldOut (the (fst (readLegacyVersionHeader file_twiddled_64x64_dxt1)))))
     = COMPRESSED \<and>
   \<not> ff_isCubeMap (formatFieldOut (the (fst (readLegacyVersionHeader file_twiddled_64x64_dxt1)))) \<and>
   \<not> ff_isVolumeTexture (formatFieldOut (the (fst (readLegacyVersionHeader file_twiddled_64x64_dxt1)))) \<and>
   \<not> ff_isVerticallyFlipped (formatFieldOut (the (fst (readLegacyVersionHeader file_twiddled_64x64_dxt1)))) \<and>
   ReadNativeImage sample_blockDims sample_Interface ConstructImage file_twiddled_64x64_dxt1 =
     ReadNativeImage_body sample_blockDims
       (the (fst (readLegacyVersionHeader file_twiddled_64x64_dxt1)))
       sample_Interface ConstructImage (snd (readLegacyVersionHeader file_twiddled_64x64_dxt1))"
proof -
  define h1 where "h1 = the (fst (readLegacyVersionHeader file_twiddled_100x50))"
  define h2 where "h2 = the (fst (readLegacyVersionHeader file_twiddled_64x64_raw))"
  define h3 where "h3 = the (fst (readLegacyVersionHeader file_twiddled_64x64_dxt1))"
  have n1: "fst (readLegacyVersionHeader file_twiddled_100x50) \<noteq> None"
    by (simp add: file_twiddled_100x50_def header_unfold)
  have n2: "fst (readLegacyVersionHeader file_twiddled_64x64_raw) \<noteq> None"
    by (simp add: file_twiddled_64x64_raw_def header_unfold)
  have n3: "fst (readLegacyVersionHeader file_twiddled_64x64_dxt1) \<noteq> None"
    by (simp add: file_twiddled_64x64_dxt1_def header_unfold)
  have s1: "fst (readLegacyVersionHeader file_twiddled_100x50) = Some h1"
    using n1 by (simp add: h1_def)
  have s2: "fst (readLegacyVersionHeader file_twiddled_64x64_raw) = Some h2"
    using n2 by (simp add: h2_def)
  have s3: "fst (readLegacyVersionHeader file_twiddled_64x64_dxt1) = Some h3"
    using n3 by (simp add: h3_def)
  have t1: "ff_dataIsTwiddled (formatFieldOut h1)"
    and d1: "unat (widthOut h1) = 100" "unat (heightOut h1) = 50"
    by (simp_all add: h1_def file_twiddled_100x50_def header_unfold)
  have t2: "ff_dataIsTwiddled (formatFieldOut h2)"
    and d2: "unat (widthOut h2) = 64" "unat (heightOut h2) = 64"
    and f2: "ff_pixelFormat (formatFieldOut h2) = ARGB_8888"
    by (simp_all add: h2_def file_twiddled_64x64_raw_def header_unfold ARGB_8888_def)
  have t3: "ff_dataIsTwiddled (formatFieldOut h3)"
    and d3: "unat (widthOut h3) = 64" "unat (heightOut h3) = 64"
    and f3: "ff_pixelFormat (formatFieldOut h3) = DXT1"
    by (simp_all add: h3_def file_twiddled_64x64_dxt1_def header_unfold DXT1_def)
  have v1: "\<not> IsMipmapSizeValid \<lparr> powerOfTwo = True, squared = True \<rparr> 100 50"
    by (simp add: IsMipmapSizeValid_def)
  have v64: "IsMipmapSizeValid \<lparr> powerOfTwo = True, squared = True \<rparr> 64 64"
    by (simp add: IsMipmapSizeValid_def isPowerOfTwo_def)
  have c2: "getPVRLegacyPixelFormatType (ff_pixelFormat (formatFieldOut h2)) \<in> {RGBA, LUMINANCE}"
    unfolding f2 by (simp add: getPVRLegacyPixelFormatType_def pixelFormat_defs)
  have c3: "getPVRLegacyPixelFormatType (ff_pixelFormat (formatFieldOut h3)) = COMPRESSED"
    unfolding f3 by (simp add: getPVRLegacyPixelFormatType_def pixelFormat_defs)
  have v1': "\<not> IsMipmapSizeValid \<lparr> powerOfTwo = True, squared = True \<rparr>
               (unat (widthOut h1)) (unat (heightOut h1))"
    unfolding d1 by (rule v1)
  have v2': "IsMipmapSizeValid \<lparr> powerOfTwo = True, squared = True \<rparr>
               (unat (widthOut h2)) (unat (heightOut h2))"
    unfolding d2 by (rule v64)
  have v3': "IsMipmapSizeValid \<lparr> powerOfTwo = True, squared = True \<rparr>
               (unat (widthOut h3)) (unat (heightOut h3))"
    unfolding d3 by (rule v64)
  note r1 = ReadNativeImage_twiddled_validation
              [OF s1 t1, of sample_blockDims sample_Interface ConstructImage]
  note r2 = ReadNativeImage_twiddled_validation
              [OF s2 t2, of sample_blockDims sample_Interface ConstructImage]
  note r3 = ReadNativeImage_twiddled_validation
              [OF s3 t3, of sample_blockDims sample_Interface ConstructImage]
  from r1 v1' have g1:
    "\<exists>e w. ReadNativeImage sample_blockDims sample_Interface ConstructImage file_twiddled_100x50 =
            Inl (e, w) \<and>
          e \<in> {InvalidPixelFormat, CubemapNotSupported, VolumeTextureNotSupported,
               VerticallyFlippedNotSupported, TwiddledNotPOTAndSquared}"
    by blast
  from r2 c2 have g2:
    "\<exists>e w. ReadNativeImage sample_blockDims sample_Interface ConstructImage file_twiddled_64x64_raw =
            Inl (e, w) \<and>
          e \<in> {InvalidPixelFormat, CubemapNotSupported, VolumeTextureNotSupported,
               VerticallyFlippedNotSupported, TwiddledNotPOTAndSquared, TwiddledNotSupported}"
    by blast
  have fl3: "\<not> ff_isCubeMap (formatFieldOut h3)" "\<not> ff_isVolumeTexture (formatFieldOut h3)"
    "\<not> ff_isVerticallyFlipped (formatFieldOut h3)"
    and bpp3: "bitsPerPixelOut h3 = getPVRLegacyFormatDepth (ff_pixelFormat (formatFieldOut h3))"
    by (simp_all add: h3_def file_twiddled_64x64_dxt1_def header_unfold getPVRLegacyFormatDepth_def
        pixelFormat_defs)
  from r3 c3 v3' fl3 have
    "ReadNativeImage sample_blockDims sample_Interface ConstructImage file_twiddled_64x64_dxt1 =
       ReadNativeImage_body sample_blockDims h3
         (if bitsPerPixelOut h3 \<noteq> getPVRLegacyFormatDepth (ff_pixelFormat (formatFieldOut h3))
          then PushWarning sample_Interface InvalidBitsPerPixel else sample_Interface)
         ConstructImage (snd (readLegacyVersionHeader file_twiddled_64x64_dxt1))"
    by blast
  then have g3:
    "ReadNativeImage sample_blockDims sample_Interface ConstructImage file_twiddled_64x64_dxt1 =
       ReadNativeImage_body sample_blockDims h3 sample_Interface ConstructImage
         (snd (readLegacyVersionHeader file_twiddled_64x64_dxt1))"
    using bpp3 by simp
  show ?thesis
    using n1 n2 n3 t1 t2 t3 d1 v1 v2' v3' c2 c3 g1 g2 g3 fl3
    unfolding h1_def h2_def h3_def by blast
qed

text \<open>The three files of the specification's example run as it says.\<close>

lemma ReadNativeImage_twiddled_examples:
  "(\<exists>w. ReadNativeImage sample_blockDims sample_Interface ConstructImage file_twiddled_100x50 =
          Inl (TwiddledNotPOTAndSquared, w)) \<and>
   (\<exists>w. ReadNativeImage sample_blockDims sample_Interface ConstructImage file_twiddled_64x64_raw =
          Inl (TwiddledNotSupported, w)) \<and>
   (\<exists>e img. ReadNativeImage sample_blockDims sample_Interface ConstructImage file_twiddled_64x64_dxt1 =
          Inr (e, img, []) \<and> img_dataIsTwiddled img \<and> length (img_mipmaps img) = 1)"
proof (intro conjI)
  show "\<exists>w. ReadNativeImage sample_blockDims sample_Interface ConstructImage file_twiddled_100x50 =
          Inl (TwiddledNotPOTAndSquared, w)"
    by (simp add: file_twiddled_100x50_def header_unfold reader_unfold)
  show "\<exists>w. ReadNativeImage sample_blockDims sample_Interface ConstructImage file_twiddled_64x64_raw =
          Inl (TwiddledNotSupported, w)"
    by (simp add: file_twiddled_64x64_raw_def header_unfold reader_unfold)
  show "\<exists>e img. ReadNativeImage sample_blockDims sample_Interface ConstructImage file_twiddled_64x64_dxt1 =
          Inr (e, img, []) \<and> img_dataIsTwiddled img \<and> length (img_mipmaps img) = 1"
    by (simp add: file_twiddled_64x64_dxt1_def header_unfold reader_unfold)
qed

subsection \<open>The declared surface size as a budget\<close>

text \<open>
  When the remaining budget is smaller than the byte size of the level that the pass
  establishes, as the source computes it in 32-bit arithmetic, the pass throws
  \<open>TooLittleSurfaceData\<close>, and it does so before it touches the allocator, the image or
  the stream.
\<close>

lemma ReadNativeImage_level_budget:
  assumes "mip_index = 0 \<or> fst (incrementLevel (ls_mipGen st))"
    and "gen = (if mip_index \<noteq> 0 then snd (incrementLevel (ls_mipGen st)) else ls_mipGen st)"
    and "getPVRLegacyFormatSurfaceDimensions blockDims pf (getLevelWidth gen) (getLevelHeight gen) =
           (sw, sh)"
    and "ls_remaining_surfDataSize st <
           getRasterDataSizeByRowSize (getPVRNativeImageRasterDataRowSize sw depth) sh"
  shows "ReadNativeImage_level blockDims pf depth mip_index st =
           Inl (TooLittleSurfaceData, st\<lparr> ls_mipGen := gen \<rparr>)"
  using assms
  by (cases "incrementLevel (ls_mipGen st)")
     (auto simp add: ReadNativeImage_level_def Let_def)

lemma ReadNativeImage_level_TooLittleSurfaceData:
  assumes "ReadNativeImage_level blockDims pf depth mip_index st = Inl (TooLittleSurfaceData, st')"
  shows "ls_engineInterface st' = ls_engineInterface st \<and> ls_natImg st' = ls_natImg st \<and>
         ls_inputStream st' = ls_inputStream st"
  using assms
  by (auto simp add: ReadNativeImage_level_def Let_def split: prod.splits if_splits)

text \<open>
  If the loop runs at all, that is if the mipmap count after \<^verbatim>\<open>mipmapCount++\<close> is not 0,
  a declared surface size below the byte size of the base level makes the body throw
  \<open>TooLittleSurfaceData\<close> with the allocator and the stream untouched.
\<close>

lemma word32_succ_nonzero: "(w :: 32 word) \<noteq> 0xFFFFFFFF \<Longrightarrow> w + 1 \<noteq> 0"
proof
  assume a: "w \<noteq> 0xFFFFFFFF" and b: "w + 1 = 0"
  from b have "w = - 1" by (simp add: eq_neg_iff_add_eq_0)
  moreover have "(- 1 :: 32 word) = 0xFFFFFFFF" by simp
  ultimately show False using a by simp
qed

lemma ReadNativeImage_body_base_level_budget:
  assumes valid: "isValidLevel (mipGenLevelGenerator (widthOut h) (heightOut h))"
    and count: "mipmapCountOut h \<noteq> 0xFFFFFFFF"
    and dims: "getPVRLegacyFormatSurfaceDimensions blockDims (ff_pixelFormat (formatFieldOut h))
                 (widthOut h) (heightOut h) = (sw, sh)"
    and small: "surfaceSizeOut h <
                  getRasterDataSizeByRowSize
                    (getPVRNativeImageRasterDataRowSize sw
                       (getPVRLegacyFormatDepth (ff_pixelFormat (formatFieldOut h)))) sh"
  shows "\<exists>natImg'. ReadNativeImage_body blockDims h engineInterface natImg inputStream =
           Inl (TooLittleSurfaceData, (engineInterface, natImg', inputStream)) \<and>
           img_mipmaps natImg' = img_mipmaps natImg"
proof -
  have "mipmapCountOut h + 1 \<noteq> 0"
    using count by (rule word32_succ_nonzero)
  then have pos: "0 < unat (mipmapCountOut h + 1)"
    by (simp add: unat_gt_0)
  let ?gen = "mipGenLevelGenerator (widthOut h) (heightOut h)"
  have dims': "getPVRLegacyFormatSurfaceDimensions blockDims (ff_pixelFormat (formatFieldOut h))
                 (getLevelWidth ?gen) (getLevelHeight ?gen) = (sw, sh)"
    using dims by (simp add: getLevelWidth_def getLevelHeight_def mipGenLevelGenerator_def)
  show ?thesis
    unfolding ReadNativeImage_body_def Let_def
    using valid pos
    by (subst ReadNativeImage_levels.simps)
       (simp add: ReadNativeImage_level_budget[OF _ _ dims'] small)
qed


lemma ReadNativeImage_body_soft:
  assumes "isValidLevel (mipGenLevelGenerator (widthOut h) (heightOut h))"
    and "ReadNativeImage_levels blockDims (ff_pixelFormat (formatFieldOut h))
           (getPVRLegacyFormatDepth (ff_pixelFormat (formatFieldOut h)))
           (unat (mipmapCountOut h + 1)) 0 st0 = Inr (mip_index, st)"
    and "st0 = \<lparr> ls_mipGen = mipGenLevelGenerator (widthOut h) (heightOut h),
                  ls_remaining_surfDataSize = surfaceSizeOut h,
                  ls_engineInterface = engineInterface,
                  ls_natImg = natImg
                    \<lparr> img_pixelFormat := ff_pixelFormat (formatFieldOut h),
                      img_dataIsTwiddled := ff_dataIsTwiddled (formatFieldOut h),
                      img_containsNormalData := ff_containsNormalData (formatFieldOut h),
                      img_hasBorder := ff_hasBorder (formatFieldOut h),
                      img_isCubeMap := False,
                      img_mipmapsHaveDebugColoring := ff_mipmapsHaveDebugColoring (formatFieldOut h),
                      img_isVolumeTexture := False,
                      img_hasAlphaChannel_pvrtc := ff_hasAlphaChannel_pvrtc (formatFieldOut h),
                      img_isVerticallyFlipped := ff_isVerticallyFlipped (formatFieldOut h),
                      img_bitDepth := getPVRLegacyFormatDepth (ff_pixelFormat (formatFieldOut h)),
                      img_isLittleEndian := isLittleEndianOut h \<rparr>,
                  ls_inputStream = inputStream \<rparr>"
  shows "ReadNativeImage_body blockDims h engineInterface natImg inputStream =
           Inr (ReadNativeImage_finish (unat (mipmapCountOut h + 1)) (mip_index, st))"
  using assms unfolding ReadNativeImage_body_def Let_def by simp

text \<open>
  C7.  The claim: a level whose byte size exceeds the remaining declared surface size
  fails the load before the buffer of the level is allocated, so that a header whose
  surface size is smaller than the byte size of the base level is rejected before any
  allocation; a loop that ends early and left-over budget only give warnings.  The source
  increments the 32-bit mipmap count of the header without a check.  The file
  \<open>file_count_wraps\<close> declares the count 0xFFFFFFFF, which the increment turns into 0, and
  the surface size 0, below the 2 bytes of its base level (1 by 1 at 16 bits): the loop
  does not run, and the load succeeds with no layer, no allocation and no warning.
\<close>

theorem ReadNativeImage_mipmap_count_wraps:
  "mipmapCountOut (the (fst (readLegacyVersionHeader file_count_wraps))) = 0xFFFFFFFF \<and>
   unat (mipmapCountOut (the (fst (readLegacyVersionHeader file_count_wraps))) + 1) = 0 \<and>
   unat (surfaceSizeOut (the (fst (readLegacyVersionHeader file_count_wraps)))) = 0 \<and>
   getRasterDataSizeByRowSize
     (getPVRNativeImageRasterDataRowSize
        (fst (getPVRLegacyFormatSurfaceDimensions sample_blockDims ARGB_4444 1 1))
        (getPVRLegacyFormatDepth ARGB_4444))
     (snd (getPVRLegacyFormatSurfaceDimensions sample_blockDims ARGB_4444 1 1)) = 2 \<and>
   ReadNativeImage sample_blockDims sample_Interface ConstructImage file_count_wraps =
     Inr (sample_Interface, ConstructImage\<lparr> img_bitDepth := 16 \<rparr>, [])"
  by (simp add: file_count_wraps_def header_unfold reader_unfold)

subsection \<open>The layers that the reader appends\<close>








subsection \<open>Surface dimensions and byte size of a level\<close>




section \<open>The import from a native texture\<close>

text \<open>
  The allocator keeps what the theorem below assumes of the engine interface: the null
  pointer is no buffer, and no buffer lies at or beyond the next fresh address.  It holds
  of an engine interface without buffers.
\<close>

lemma PixelAllocate_heap:
  assumes "pixels engineInterface 0 = None" and "0 < next_ptr engineInterface"
    and "\<forall>p\<ge>next_ptr engineInterface. pixels engineInterface p = None"
    and "PixelAllocate engineInterface memSize = (ptr, engineInterface')"
  shows "pixels engineInterface' 0 = None \<and> 0 < next_ptr engineInterface' \<and>
         (\<forall>p\<ge>next_ptr engineInterface'. pixels engineInterface' p = None)"
  using assms by (auto simp: PixelAllocate_def split: if_splits)

lemma PixelFree_heap:
  assumes "pixels engineInterface 0 = None" and "0 < next_ptr engineInterface"
    and "\<forall>p\<ge>next_ptr engineInterface. pixels engineInterface p = None"
  shows "pixels (PixelFree engineInterface ptr) 0 = None \<and>
         0 < next_ptr (PixelFree engineInterface ptr) \<and>
         (\<forall>p\<ge>next_ptr (PixelFree engineInterface ptr). pixels (PixelFree engineInterface ptr) p = None)"
  using assms by (simp add: PixelFree_def)

lemma sample_Interface_heap:
  "pixels sample_Interface 0 = None \<and> 0 < next_ptr sample_Interface \<and>
   (\<forall>p\<ge>next_ptr sample_Interface. pixels sample_Interface p = None)"
  by (simp add: sample_Interface_def)

lemma deleteMipmapLayers_pixels:
  "pixels (deleteMipmapLayers engineInterface mipmaps) =
     (\<lambda>p. if p \<noteq> 0 \<and> p \<in> mip_texels ` set mipmaps then None else pixels engineInterface p)"
  unfolding deleteMipmapLayers_def
  by (induction mipmaps arbitrary: engineInterface) (auto simp: PixelFree_def fun_eq_iff)

lemma deleteMipmapLayers_fields:
  "next_ptr (deleteMipmapLayers engineInterface mipmaps) = next_ptr engineInterface"
  "alloc_calls (deleteMipmapLayers engineInterface mipmaps) = alloc_calls engineInterface"
  "alloc_policy (deleteMipmapLayers engineInterface mipmaps) = alloc_policy engineInterface"
  unfolding deleteMipmapLayers_def
  by (induction mipmaps arbitrary: engineInterface; simp add: PixelFree_def)+

lemma rollback_pixels_eq:
  "rollback_pixels owned palette st =
     (\<lambda>p. if (p \<noteq> 0 \<and> p \<in> mip_texels ` set (cs_convLayers st)) \<or>
              (owned \<and> ((p \<noteq> 0 \<and> p \<in> mip_texels ` set (cs_srcLayers st)) \<or> (p = palette \<and> palette \<noteq> 0)))
           then None else pixels (cs_engineInterface st) p)"
  unfolding rollback_pixels_def Let_def
  by (auto simp: deleteMipmapLayers_pixels PixelFree_def fun_eq_iff)

lemma texels_update:
  assumes "n < length xs" and "mip_texels (xs ! n) = 0" and "x \<noteq> 0"
  shows "x \<in> mip_texels ` set (xs[n := layer]) \<longleftrightarrow> x = mip_texels layer \<or> x \<in> mip_texels ` set xs"
proof
  assume "x \<in> mip_texels ` set (xs[n := layer])"
  then obtain y where y: "y \<in> set (xs[n := layer])" "x = mip_texels y" by auto
  then have "y = layer \<or> y \<in> set xs"
    using set_update_subset_insert[of xs n layer] by auto
  then show "x = mip_texels layer \<or> x \<in> mip_texels ` set xs" using y(2) by auto
next
  assume "x = mip_texels layer \<or> x \<in> mip_texels ` set xs"
  then show "x \<in> mip_texels ` set (xs[n := layer])"
  proof
    assume "x = mip_texels layer"
    then show ?thesis using set_update_memI[OF assms(1), of layer] by auto
  next
    assume "x \<in> mip_texels ` set xs"
    then obtain k where k: "k < length xs" "x = mip_texels (xs ! k)"
      by (auto simp: in_set_conv_nth)
    then have "k \<noteq> n" using assms(2,3) by auto
    then have "(xs[n := layer]) ! k = xs ! k" by simp
    moreover have "(xs[n := layer]) ! k \<in> set (xs[n := layer])" using k(1) by simp
    ultimately show ?thesis using k(2) by (metis imageI)
  qed
qed

lemma texels_null:
  assumes "n < length xs" and "x \<noteq> 0"
  shows "x \<in> mip_texels ` set xs \<longleftrightarrow>
         x = mip_texels (xs ! n) \<or> x \<in> mip_texels ` set (xs[n := (xs ! n)\<lparr> mip_texels := 0 \<rparr>])"
proof
  assume "x \<in> mip_texels ` set xs"
  then obtain k where k: "k < length xs" "x = mip_texels (xs ! k)"
    by (auto simp: in_set_conv_nth)
  show "x = mip_texels (xs ! n) \<or> x \<in> mip_texels ` set (xs[n := (xs ! n)\<lparr> mip_texels := 0 \<rparr>])"
  proof (cases "k = n")
    case True
    then show ?thesis using k(2) by simp
  next
    case False
    then have "(xs[n := (xs ! n)\<lparr> mip_texels := 0 \<rparr>]) ! k = xs ! k" by simp
    moreover have "(xs[n := (xs ! n)\<lparr> mip_texels := 0 \<rparr>]) ! k \<in> set (xs[n := (xs ! n)\<lparr> mip_texels := 0 \<rparr>])"
      using k(1) by simp
    ultimately show ?thesis using k(2) by (metis imageI)
  qed
next
  assume "x = mip_texels (xs ! n) \<or> x \<in> mip_texels ` set (xs[n := (xs ! n)\<lparr> mip_texels := 0 \<rparr>])"
  then show "x \<in> mip_texels ` set xs"
  proof
    assume "x = mip_texels (xs ! n)"
    then show ?thesis using assms(1) by simp
  next
    assume "x \<in> mip_texels ` set (xs[n := (xs ! n)\<lparr> mip_texels := 0 \<rparr>])"
    then obtain y where y: "y \<in> set (xs[n := (xs ! n)\<lparr> mip_texels := 0 \<rparr>])" "x = mip_texels y" by auto
    then have "y = (xs ! n)\<lparr> mip_texels := 0 \<rparr> \<or> y \<in> set xs"
      using set_update_subset_insert[of xs n "(xs ! n)\<lparr> mip_texels := 0 \<rparr>"] by auto
    then show ?thesis using y(2) assms(2) by auto
  qed
qed

lemma convert_layer_Inl:
  assumes step: "convert_layer env d a pd owned n st = Inl (e, st')"
    and inv: "conv_inv first n st"
  shows "rollback_pixels owned palette st' = rollback_pixels owned palette st \<and>
         (\<not> alloc_policy (cs_engineInterface st) (alloc_calls (cs_engineInterface st)) \<and>
            e = ConversionLayerAllocationFailed \<or>
          copyTexelDataEx env n = None \<and> e = ConversionFailed)"
proof (cases "alloc_policy (cs_engineInterface st) (alloc_calls (cs_engineInterface st))")
  case False
  then have "e = ConversionLayerAllocationFailed"
    and "st' = st\<lparr> cs_engineInterface := (cs_engineInterface st)
                      \<lparr> alloc_calls := alloc_calls (cs_engineInterface st) + 1 \<rparr> \<rparr>"
    using step by (auto simp: convert_layer_def PixelAllocate_def Let_def)
  then show ?thesis using False by (simp add: rollback_pixels_eq cong: if_cong)
next
  case True
  have fresh: "pixels (cs_engineInterface st) (next_ptr (cs_engineInterface st)) = None"
    and pos: "0 < next_ptr (cs_engineInterface st)"
    using inv by (auto simp: conv_inv_def)
  from True pos step have none: "copyTexelDataEx env n = None"
    by (auto simp: convert_layer_def PixelAllocate_def Let_def split: option.splits if_splits)
  with True pos step have e: "e = ConversionFailed"
    and st': "st' = st\<lparr> cs_engineInterface :=
                PixelFree ((cs_engineInterface st)
                  \<lparr> pixels := (pixels (cs_engineInterface st))
                       (next_ptr (cs_engineInterface st) \<mapsto>
                          replicate (unat (getRasterDataSizeByRowSize
                             (getPVRNativeImageRasterDataRowSize (mip_layerWidth (cs_srcLayers st ! n)) pd)
                             (mip_layerHeight (cs_srcLayers st ! n)))) 0),
                     next_ptr := next_ptr (cs_engineInterface st) + 1,
                     alloc_calls := alloc_calls (cs_engineInterface st) + 1 \<rparr>)
                  (next_ptr (cs_engineInterface st)) \<rparr>"
    by (auto simp: convert_layer_def PixelAllocate_def Let_def)
  have "pixels (cs_engineInterface st') = pixels (cs_engineInterface st)"
    using fresh by (auto simp: st' PixelFree_def fun_eq_iff)
  moreover have "cs_convLayers st' = cs_convLayers st" "cs_srcLayers st' = cs_srcLayers st"
    by (simp_all add: st')
  ultimately show ?thesis using none e by (simp add: rollback_pixels_eq cong: if_cong)
qed

lemma convert_layer_Inr:
  assumes step: "convert_layer env d a pd owned n st = Inr st'"
    and inv: "conv_inv first n st"
    and n: "n < length (cs_srcLayers st)"
  shows "rollback_pixels owned palette st' = rollback_pixels owned palette st"
    and "conv_inv first (n + 1) st'"
    and "alloc_policy (cs_engineInterface st) (alloc_calls (cs_engineInterface st))"
    and "copyTexelDataEx env n \<noteq> None"
    and "alloc_calls (cs_engineInterface st') = alloc_calls (cs_engineInterface st) + 1"
    and "alloc_policy (cs_engineInterface st') = alloc_policy (cs_engineInterface st)"
    and "length (cs_srcLayers st') = length (cs_srcLayers st)"
proof -
  define p where "p = next_ptr (cs_engineInterface st)"
  define q where "q = mip_texels (cs_srcLayers st ! n)"
  have fresh: "\<And>x. p \<le> x \<Longrightarrow> pixels (cs_engineInterface st) x = None"
    and pos: "0 < p" and null: "pixels (cs_engineInterface st) 0 = None"
    and len: "length (cs_convLayers st) = length (cs_srcLayers st)"
    and first: "0 < first" "first \<le> p"
    and conv: "\<And>k. k < length (cs_convLayers st) \<Longrightarrow>
                 (if k < n then first \<le> mip_texels (cs_convLayers st ! k) \<and>
                                mip_texels (cs_convLayers st ! k) < p
                  else mip_texels (cs_convLayers st ! k) = 0)"
    using inv by (auto simp: conv_inv_def p_def)
  show ok: "alloc_policy (cs_engineInterface st) (alloc_calls (cs_engineInterface st))"
    using step by (auto simp: convert_layer_def PixelAllocate_def Let_def split: if_splits)
  from ok step pos show some: "copyTexelDataEx env n \<noteq> None"
    by (auto simp: convert_layer_def PixelAllocate_def Let_def p_def split: option.splits)
  then obtain converted where c: "copyTexelDataEx env n = Some converted" by auto
  define newLayer where "newLayer =
     \<lparr> mip_width = mip_layerWidth (cs_srcLayers st ! n), mip_height = mip_layerHeight (cs_srcLayers st ! n),
       mip_layerWidth = mip_layerWidth (cs_srcLayers st ! n),
       mip_layerHeight = mip_layerHeight (cs_srcLayers st ! n),
       mip_texels = p,
       mip_dataSize = getRasterDataSizeByRowSize
          (getPVRNativeImageRasterDataRowSize (mip_layerWidth (cs_srcLayers st ! n)) pd)
          (mip_layerHeight (cs_srcLayers st ! n)) \<rparr>"
  have eng': "pixels (cs_engineInterface st') =
                (if owned then ((pixels (cs_engineInterface st))(p \<mapsto> converted))(q := None)
                 else (pixels (cs_engineInterface st))(p \<mapsto> converted))"
      "next_ptr (cs_engineInterface st') = p + 1"
    and convL: "cs_convLayers st' = (cs_convLayers st)[n := newLayer]"
    and srcL: "cs_srcLayers st' =
                (if owned then (cs_srcLayers st)[n := (cs_srcLayers st ! n)\<lparr> mip_texels := 0 \<rparr>]
                 else cs_srcLayers st)"
    and calls: "alloc_calls (cs_engineInterface st') = alloc_calls (cs_engineInterface st) + 1"
    and policy: "alloc_policy (cs_engineInterface st') = alloc_policy (cs_engineInterface st)"
    using ok step pos c
    by (auto simp: convert_layer_def PixelAllocate_def PixelFree_def Let_def p_def q_def newLayer_def)
  show "alloc_calls (cs_engineInterface st') = alloc_calls (cs_engineInterface st) + 1"
    and "alloc_policy (cs_engineInterface st') = alloc_policy (cs_engineInterface st)"
    by (fact calls, fact policy)
  show "length (cs_srcLayers st') = length (cs_srcLayers st)"
    by (simp add: srcL)
  have nconv: "n < length (cs_convLayers st)" using n len by simp
  have zero: "mip_texels (cs_convLayers st ! n) = 0" using conv[OF nconv] by simp
  have tex: "mip_texels newLayer = p" by (simp add: newLayer_def)
  show "conv_inv first (n + 1) st'"
    unfolding conv_inv_def
  proof (intro conjI allI impI)
    show "pixels (cs_engineInterface st') 0 = None" using null pos by (simp add: eng')
    show "0 < first" by (fact first)
    show "first \<le> next_ptr (cs_engineInterface st')" using first by (simp add: eng')
    show "length (cs_convLayers st') = length (cs_srcLayers st')" using len by (simp add: convL srcL)
  next
    fix x assume "next_ptr (cs_engineInterface st') \<le> x"
    then have "p < x" by (simp add: eng')
    then show "pixels (cs_engineInterface st') x = None" using fresh[of x] by (simp add: eng')
  next
    fix k assume k: "k < length (cs_convLayers st')"
    then have k': "k < length (cs_convLayers st)" by (simp add: convL)
    show "if k < n + 1
          then first \<le> mip_texels (cs_convLayers st' ! k) \<and>
               mip_texels (cs_convLayers st' ! k) < next_ptr (cs_engineInterface st')
          else mip_texels (cs_convLayers st' ! k) = 0"
    proof (cases "k = n")
      case True
      then show ?thesis using k' first by (simp add: convL eng' tex)
    next
      case False
      then have "cs_convLayers st' ! k = cs_convLayers st ! k" by (simp add: convL)
      then show ?thesis using conv[OF k'] False by (auto simp: eng')
    qed
  qed
  show "rollback_pixels owned palette st' = rollback_pixels owned palette st"
  proof (rule ext)
    fix x
    show "rollback_pixels owned palette st' x = rollback_pixels owned palette st x"
    proof (cases "x = 0")
      case True
      then show ?thesis using null pos by (simp add: rollback_pixels_eq eng')
    next
      case x: False
      have c1: "x \<in> mip_texels ` set (cs_convLayers st') \<longleftrightarrow>
                x = p \<or> x \<in> mip_texels ` set (cs_convLayers st)"
        using texels_update[OF nconv zero x, of newLayer] by (simp add: convL tex)
      have c2: "owned \<Longrightarrow> x \<in> mip_texels ` set (cs_srcLayers st) \<longleftrightarrow>
                x = q \<or> x \<in> mip_texels ` set (cs_srcLayers st')"
        using texels_null[OF n x] by (simp add: srcL q_def)
      have c3: "\<not> owned \<Longrightarrow> cs_srcLayers st' = cs_srcLayers st" by (simp add: srcL)
      show ?thesis
      proof (cases owned)
        case True
        then show ?thesis
          using x c1 c2[OF True] fresh[of p]
          by (simp add: rollback_pixels_eq eng')
      next
        case False
        then show ?thesis
          using x c1 c3[OF False] fresh[of p]
          by (simp add: rollback_pixels_eq eng')
      qed
    qed
  qed
qed

lemma convert_layers_run:
  "conv_inv first n st \<Longrightarrow> m = length (cs_srcLayers st) \<Longrightarrow> n \<le> m \<Longrightarrow>
   (case convert_layers env d a pd owned m n st of
      Inl (e, st') \<Rightarrow>
        rollback_pixels owned palette st' = rollback_pixels owned palette st \<and>
        (\<exists>k. n \<le> k \<and> k < m \<and>
           (\<not> alloc_policy (cs_engineInterface st) (alloc_calls (cs_engineInterface st) + (k - n)) \<and>
              e = ConversionLayerAllocationFailed \<or>
            copyTexelDataEx env k = None \<and> e = ConversionFailed))
    | Inr st' \<Rightarrow>
        conv_inv first m st' \<and>
        length (cs_srcLayers st') = m \<and>
        (\<forall>k. n \<le> k \<and> k < m \<longrightarrow>
           alloc_policy (cs_engineInterface st) (alloc_calls (cs_engineInterface st) + (k - n)) \<and>
           copyTexelDataEx env k \<noteq> None) \<and>
        alloc_calls (cs_engineInterface st') = alloc_calls (cs_engineInterface st) + (m - n))"
proof (induction env d a pd owned m n st rule: convert_layers.induct)
  case (1 env d a pd owned m n st)
  show ?case
  proof (cases "n < m")
    case False
    then have "n = m" using "1.prems"(3) by simp
    then have "convert_layers env d a pd owned m n st = Inr st"
      by (subst convert_layers.simps) simp
    then show ?thesis using \<open>n = m\<close> "1.prems"(1,2) by auto
  next
    case lt: True
    then have n: "n < length (cs_srcLayers st)" using "1.prems"(2) by simp
    show ?thesis
    proof (cases "convert_layer env d a pd owned n st")
      case (Inl x)
      obtain e st' where x: "x = (e, st')" by (cases x)
      have run: "convert_layers env d a pd owned m n st = Inl (e, st')"
        using lt Inl x by (subst convert_layers.simps) simp
      from convert_layer_Inl[OF Inl[unfolded x] "1.prems"(1), of palette]
      have "rollback_pixels owned palette st' = rollback_pixels owned palette st"
        and "\<not> alloc_policy (cs_engineInterface st) (alloc_calls (cs_engineInterface st) + (n - n)) \<and>
               e = ConversionLayerAllocationFailed \<or>
             copyTexelDataEx env n = None \<and> e = ConversionFailed"
        by simp_all
      then show ?thesis using run lt by auto
    next
      case (Inr st1)
      note s = convert_layer_Inr[OF Inr "1.prems"(1) n]
      note s1 = convert_layer_Inr(1)[OF Inr "1.prems"(1) n, where palette = palette]
      have run: "convert_layers env d a pd owned m n st =
                 convert_layers env d a pd owned m (n + 1) st1"
        using lt Inr by (subst convert_layers.simps) simp
      have m1: "m = length (cs_srcLayers st1)" using s(7) "1.prems"(2) by simp
      have le: "n + 1 \<le> m" using lt by simp
      note ih = "1.IH"[OF lt Inr s(2) m1 le]
      show ?thesis
      proof (cases "convert_layers env d a pd owned m (n + 1) st1")
        case (Inl x)
        obtain e st' where x: "x = (e, st')" by (cases x)
        from ih Inl x obtain k where
          r: "rollback_pixels owned palette st' = rollback_pixels owned palette st1"
          and k: "n + 1 \<le> k" "k < m"
             "\<not> alloc_policy (cs_engineInterface st1) (alloc_calls (cs_engineInterface st1) + (k - (n + 1))) \<and>
                e = ConversionLayerAllocationFailed \<or>
              copyTexelDataEx env k = None \<and> e = ConversionFailed"
          by auto
        have "alloc_calls (cs_engineInterface st1) + (k - (n + 1)) =
              alloc_calls (cs_engineInterface st) + (k - n)"
          using s(5) k(1) by simp
        then have "\<not> alloc_policy (cs_engineInterface st) (alloc_calls (cs_engineInterface st) + (k - n)) \<and>
                e = ConversionLayerAllocationFailed \<or>
              copyTexelDataEx env k = None \<and> e = ConversionFailed"
          using k(3) s(6) by simp
        moreover have "n \<le> k" using k(1) by simp
        ultimately have "\<exists>k. n \<le> k \<and> k < m \<and>
           (\<not> alloc_policy (cs_engineInterface st) (alloc_calls (cs_engineInterface st) + (k - n)) \<and>
              e = ConversionLayerAllocationFailed \<or>
            copyTexelDataEx env k = None \<and> e = ConversionFailed)"
          using k(2) by blast
        then show ?thesis using run Inl x r s1 by simp
      next
        case (Inr st')
        from ih Inr have
          i: "conv_inv first m st'" "length (cs_srcLayers st') = m"
          and all: "\<And>k. n + 1 \<le> k \<Longrightarrow> k < m \<Longrightarrow>
             alloc_policy (cs_engineInterface st1) (alloc_calls (cs_engineInterface st1) + (k - (n + 1))) \<and>
             copyTexelDataEx env k \<noteq> None"
          and calls: "alloc_calls (cs_engineInterface st') = alloc_calls (cs_engineInterface st1) + (m - (n + 1))"
          by auto
        have "alloc_policy (cs_engineInterface st) (alloc_calls (cs_engineInterface st) + (k - n)) \<and>
              copyTexelDataEx env k \<noteq> None" if k: "n \<le> k" "k < m" for k
        proof (cases "k = n")
          case True
          then show ?thesis using s(3,4) by simp
        next
          case False
          then have k1: "n + 1 \<le> k" using k(1) by simp
          have "alloc_calls (cs_engineInterface st1) + (k - (n + 1)) =
                alloc_calls (cs_engineInterface st) + (k - n)"
            using s(5) k1 by simp
          then show ?thesis using all[OF k1 k(2)] s(6) by simp
        qed
        moreover have "alloc_calls (cs_engineInterface st') = alloc_calls (cs_engineInterface st) + (m - n)"
          using calls s(5) lt by simp
        ultimately show ?thesis using run Inr i by simp
      qed
    qed
  qed
qed

lemma rollback_pixels_initial:
  assumes "pixels engineInterface 0 = None"
  shows "rollback_pixels owned palette
           \<lparr> cs_engineInterface = engineInterface, cs_srcLayers = layers,
             cs_convLayers = replicate m default_mipmapLayer \<rparr> =
         (\<lambda>p. if owned \<and> (p \<in> mip_texels ` set layers \<or> p = palette) then None
               else pixels engineInterface p)"
proof (rule ext)
  fix p
  have "p \<noteq> 0 \<Longrightarrow> p \<notin> mip_texels ` set (replicate m default_mipmapLayer)"
    by (auto simp: default_mipmapLayer_def)
  then show "rollback_pixels owned palette
           \<lparr> cs_engineInterface = engineInterface, cs_srcLayers = layers,
             cs_convLayers = replicate m default_mipmapLayer \<rparr> p =
         (if owned \<and> (p \<in> mip_texels ` set layers \<or> p = palette) then None
          else pixels engineInterface p)"
    using assms by (cases "p = 0") (auto simp: rollback_pixels_eq)
qed

lemma conv_inv_initial:
  assumes "pixels engineInterface 0 = None" and "0 < next_ptr engineInterface"
    and "\<forall>p\<ge>next_ptr engineInterface. pixels engineInterface p = None"
  shows "conv_inv (next_ptr engineInterface) 0
           \<lparr> cs_engineInterface = engineInterface, cs_srcLayers = layers,
             cs_convLayers = replicate (length layers) default_mipmapLayer \<rparr>"
  using assms by (simp add: conv_inv_def default_mipmapLayer_def)

lemma convert_to_pvr_run:
  assumes null: "pixels engineInterface 0 = None" and pos: "0 < next_ptr engineInterface"
    and fresh: "\<forall>p\<ge>next_ptr engineInterface. pixels engineInterface p = None"
  shows "case convert_to_pvr env d a pd (engineInterface, layers, owned) of
           Inl (e, (engineInterface', layers', owned')) \<Rightarrow>
             owned' = owned \<and>
             pixels (if owned
                     then (let freed = deleteMipmapLayers engineInterface' layers'
                           in if palette \<noteq> 0 then PixelFree freed palette else freed)
                     else engineInterface') =
               (\<lambda>p. if owned \<and> (p \<in> mip_texels ` set layers \<or> p = palette) then None
                     else pixels engineInterface p) \<and>
             (\<exists>n<length layers.
                \<not> alloc_policy engineInterface (alloc_calls engineInterface + n) \<and>
                  e = ConversionLayerAllocationFailed \<or>
                copyTexelDataEx env n = None \<and> e = ConversionFailed)
         | Inr (engineInterface', layers', owned') \<Rightarrow>
             owned' \<and>
             (\<forall>n<length layers.
                alloc_policy engineInterface (alloc_calls engineInterface + n) \<and>
                copyTexelDataEx env n \<noteq> None) \<and>
             alloc_calls engineInterface' = alloc_calls engineInterface + length layers \<and>
             length layers' = length layers \<and>
             (\<forall>layer\<in>set layers'. next_ptr engineInterface \<le> mip_texels layer)"
proof -
  define st where "st = \<lparr> cs_engineInterface = engineInterface, cs_srcLayers = layers,
                          cs_convLayers = replicate (length layers) default_mipmapLayer \<rparr>"
  have inv: "conv_inv (next_ptr engineInterface) 0 st"
    unfolding st_def by (rule conv_inv_initial[OF null pos fresh])
  have m: "length layers = length (cs_srcLayers st)" by (simp add: st_def)
  have st_fields: "cs_engineInterface st = engineInterface" by (simp add: st_def)
  note run = convert_layers_run[OF inv m, where env = env and d = d and a = a and pd = pd
      and owned = owned and palette = palette, simplified]
  have unfold: "convert_to_pvr env d a pd (engineInterface, layers, owned) =
        (case convert_layers env d a pd owned (length layers) 0 st of
           Inl (e, st') \<Rightarrow>
             Inl (e, (deleteMipmapLayers (cs_engineInterface st') (cs_convLayers st'),
                      cs_srcLayers st', owned))
         | Inr st' \<Rightarrow> Inr (cs_engineInterface st', cs_convLayers st', True))"
    by (simp add: convert_to_pvr_def st_def Let_def)
  show ?thesis
  proof (cases "convert_layers env d a pd owned (length layers) 0 st")
    case (Inl x)
    obtain e st' where x: "x = (e, st')" by (cases x)
    from run Inl x have
      r: "rollback_pixels owned palette st' = rollback_pixels owned palette st"
      and k: "\<exists>k<length layers.
                \<not> alloc_policy engineInterface (alloc_calls engineInterface + k) \<and>
                  e = ConversionLayerAllocationFailed \<or>
                copyTexelDataEx env k = None \<and> e = ConversionFailed"
      by (simp_all add: st_fields)
    have "pixels (if owned
                  then (let freed = deleteMipmapLayers
                                      (deleteMipmapLayers (cs_engineInterface st') (cs_convLayers st'))
                                      (cs_srcLayers st')
                        in if palette \<noteq> 0 then PixelFree freed palette else freed)
                  else deleteMipmapLayers (cs_engineInterface st') (cs_convLayers st')) =
          rollback_pixels owned palette st'"
      by (simp add: rollback_pixels_def Let_def)
    also have "\<dots> = (\<lambda>p. if owned \<and> (p \<in> mip_texels ` set layers \<or> p = palette) then None
                           else pixels engineInterface p)"
      unfolding r st_def by (rule rollback_pixels_initial[OF null])
    finally show ?thesis using k by (simp add: unfold Inl x)
  next
    case (Inr st')
    from run Inr have inv': "conv_inv (next_ptr engineInterface) (length layers) st'"
      and len: "length (cs_srcLayers st') = length layers"
      and ok: "\<forall>k<length layers.
                 alloc_policy engineInterface (alloc_calls engineInterface + k) \<and>
                 copyTexelDataEx env k \<noteq> None"
      and calls: "alloc_calls (cs_engineInterface st') = alloc_calls engineInterface + length layers"
      by (simp_all add: st_fields)
    from inv' len have clen: "length (cs_convLayers st') = length layers"
      and new: "\<And>k. k < length (cs_convLayers st') \<Longrightarrow>
                  next_ptr engineInterface \<le> mip_texels (cs_convLayers st' ! k)"
      by (auto simp: conv_inv_def)
    have "\<forall>layer\<in>set (cs_convLayers st'). next_ptr engineInterface \<le> mip_texels layer"
      using new by (auto simp: in_set_conv_nth)
    then show ?thesis using ok calls clen by (simp add: unfold Inr)
  qed
qed

lemma ReadFromNativeTexture_try_convert:
  assumes "isFrameworkData" and "nt_compressionType nativeTex = RWCOMPRESS_NONE"
    and "\<not> canDirectlyAcquire env nativeTex layers"
    and "pvrPixelFormat = fst (getPVRLegacyRawColorFormatLink (nt_rasterFormat nativeTex)
                                (nt_depth nativeTex) (nt_colorOrder nativeTex))"
    and "pvrDepth = getPVRLegacyFormatDepth pvrPixelFormat"
  shows "ReadFromNativeTexture_try env natImg isFrameworkData isPVRTC nativeTex texCubeMap
           (engineInterface, layers, owned) =
         (case convert_to_pvr env (nt_depth nativeTex) (nt_rowAlignment nativeTex) pvrDepth
                 (engineInterface, layers, owned) of
            Inl e \<Rightarrow> Inl e
          | Inr (engineInterface', layers', owned') \<Rightarrow>
              Inr (engineInterface',
                   write_image natImg layers' pvrPixelFormat texCubeMap False pvrDepth True,
                   owned'))"
  using assms
  by (cases "getPVRLegacyRawColorFormatLink (nt_rasterFormat nativeTex) (nt_depth nativeTex)
               (nt_colorOrder nativeTex)")
     (auto simp: ReadFromNativeTexture_try_def Let_def split: sum.splits)

lemma ReadFromNativeTexture_try_direct:
  assumes "\<not> (isFrameworkData \<and> nt_compressionType nativeTex = RWCOMPRESS_NONE \<and>
              \<not> canDirectlyAcquire env nativeTex layers)"
    and "isFrameworkData \<or> isPVRTC"
  shows "case ReadFromNativeTexture_try env natImg isFrameworkData isPVRTC nativeTex texCubeMap
                (engineInterface, layers, owned) of
           Inl (e, ls) \<Rightarrow> ls = (engineInterface, layers, owned)
         | Inr (engineInterface', natImg', owned') \<Rightarrow>
             engineInterface' = engineInterface \<and> owned' = owned \<and> img_mipmaps natImg' = layers"
  using assms
  by (cases "getPVRLegacyRawColorFormatLink (nt_rasterFormat nativeTex) (nt_depth nativeTex)
               (nt_colorOrder nativeTex)")
     (auto simp add: ReadFromNativeTexture_try_def write_image_def Let_def)

lemma ReadFromNativeTexture_invalid_name:
  assumes "nativeTexName \<noteq> ''Direct3D8''" and "nativeTexName \<noteq> ''Direct3D9''"
    and "nativeTexName \<noteq> ''PowerVR''"
  shows "ReadFromNativeTexture env engineInterface natImg nativeTexName nativeTex =
         Inl (InvalidNativeTextureType, (engineInterface, natImg))"
  using assms by (simp add: ReadFromNativeTexture_def)

lemma ReadFromNativeTexture_framework:
  assumes "nativeTexName = ''Direct3D8'' \<or> nativeTexName = ''Direct3D9''"
  shows "ReadFromNativeTexture env engineInterface natImg nativeTexName nativeTex =
         (case ReadFromNativeTexture_try env natImg True False nativeTex
                 (if nativeTexName = ''Direct3D9'' then nt_cubeMap nativeTex else False)
                 (engineInterface, nt_layers nativeTex, nt_isNewlyAllocated nativeTex) of
            Inl (e, (engineInterface', layers', owned')) \<Rightarrow>
              Inl (e, ((if owned'
                        then (let freed = deleteMipmapLayers engineInterface' layers'
                              in if nt_paletteData nativeTex \<noteq> 0
                                 then PixelFree freed (nt_paletteData nativeTex) else freed)
                        else engineInterface'), natImg))
          | Inr (engineInterface', natImg', owned') \<Rightarrow>
              Inr ((if nt_isNewlyAllocated nativeTex \<and> nt_paletteData nativeTex \<noteq> 0
                    then PixelFree engineInterface' (nt_paletteData nativeTex)
                    else engineInterface'),
                   natImg',
                   \<lparr> hasDirectlyAcquired = (owned' = False), hasDirectlyAcquiredPalette = False \<rparr>))"
  using assms
  by (auto simp: ReadFromNativeTexture_def Let_def split: sum.splits prod.splits)

lemma ReadFromNativeTexture_PowerVR:
  "ReadFromNativeTexture env engineInterface natImg ''PowerVR'' nativeTex =
     (case ReadFromNativeTexture_try env natImg False True nativeTex False
             (engineInterface, nt_layers nativeTex, False) of
        Inl (e, (engineInterface', layers', owned')) \<Rightarrow>
          Inl (e, ((if owned' then deleteMipmapLayers engineInterface' layers'
                    else engineInterface'), natImg))
      | Inr (engineInterface', natImg', owned') \<Rightarrow>
          Inr (engineInterface', natImg',
               \<lparr> hasDirectlyAcquired = (owned' = False), hasDirectlyAcquiredPalette = False \<rparr>))"
  by (auto simp: ReadFromNativeTexture_def Let_def split: sum.splits prod.splits)

lemma pixels_outer_catch:
  assumes "pixels engineInterface 0 = None"
  shows "pixels (if owned
                 then (let freed = deleteMipmapLayers engineInterface layers
                       in if palette \<noteq> 0 then PixelFree freed palette else freed)
                 else engineInterface) =
         (\<lambda>p. if owned \<and> (p \<in> mip_texels ` set layers \<or> p = palette) then None
               else pixels engineInterface p)"
proof (rule ext)
  fix p
  show "pixels (if owned
                 then (let freed = deleteMipmapLayers engineInterface layers
                       in if palette \<noteq> 0 then PixelFree freed palette else freed)
                 else engineInterface) p =
         (if owned \<and> (p \<in> mip_texels ` set layers \<or> p = palette) then None
          else pixels engineInterface p)"
    using assms
    by (cases "p = 0") (auto simp: Let_def deleteMipmapLayers_pixels PixelFree_def)
qed

text \<open>
  C10.  \<^verbatim>\<open>ReadFromNativeTexture\<close> runs on the engine interface as the fetch from the native
  texture has left it, in which the null pointer is no buffer and no buffer lies at or
  beyond the next fresh address.

  When it throws, the image is as it was, and the live buffers with their contents are
  those from before the call, less the layers and the palette of the source if the fetch
  has newly allocated them: no buffer at an address that was fresh before the call, as
  every buffer of a conversion layer is, stays, and a source that is only borrowed keeps
  all its buffers.  When the samples are converted (a Direct3D texture of raw samples that
  cannot be acquired directly), the exception is that of a level whose allocation has
  failed or whose conversion has thrown.

  When it returns, the feedback reports direct acquisition exactly when the fetch has
  allocated no buffers and the samples are not converted.  That is exactly when no buffer
  is new, neither from the fetch nor from the call, for a source of at least one layer
  where the samples are converted: the conversion of no layer allocates nothing and is
  still reported as no direct acquisition.  When the samples are not converted, the image
  holds the layers of the source and the call has allocated nothing.  When the samples are
  converted, the allocation and the conversion of every level have succeeded, the call
  has allocated one buffer for each layer, every layer of the image has a buffer at an
  address that was fresh before the call, and the feedback reports no direct acquisition.
\<close>

theorem ReadFromNativeTexture_conversion_rollback:
  assumes null: "pixels engineInterface 0 = None"
    and pos: "0 < next_ptr engineInterface"
    and fresh: "\<forall>p\<ge>next_ptr engineInterface. pixels engineInterface p = None"
  shows
    "let isFrameworkData = (nativeTexName = ''Direct3D8'' \<or> nativeTexName = ''Direct3D9'');
         srcLayers = nt_layers nativeTex;
         fetchedNewBuffers = (isFrameworkData \<and> nt_isNewlyAllocated nativeTex);
         converts = (isFrameworkData \<and> nt_compressionType nativeTex = RWCOMPRESS_NONE \<and>
                     \<not> canDirectlyAcquire env nativeTex srcLayers)
     in case ReadFromNativeTexture env engineInterface natImg nativeTexName nativeTex of
          Inl (e, engineInterface', natImg') \<Rightarrow>
            natImg' = natImg \<and>
            pixels engineInterface' =
              (\<lambda>p. if fetchedNewBuffers \<and>
                       (p \<in> mip_texels ` set srcLayers \<or> p = nt_paletteData nativeTex)
                    then None else pixels engineInterface p) \<and>
            (\<forall>p\<ge>next_ptr engineInterface. pixels engineInterface' p = None) \<and>
            (converts \<longrightarrow>
               (\<exists>n<length srcLayers.
                  \<not> alloc_policy engineInterface (alloc_calls engineInterface + n) \<and>
                    e = ConversionLayerAllocationFailed \<or>
                  copyTexelDataEx env n = None \<and> e = ConversionFailed))
        | Inr (engineInterface', natImg', feedbackOut) \<Rightarrow>
            (hasDirectlyAcquired feedbackOut \<longleftrightarrow> \<not> fetchedNewBuffers \<and> \<not> converts) \<and>
            ((converts \<longrightarrow> srcLayers \<noteq> []) \<longrightarrow>
               (hasDirectlyAcquired feedbackOut \<longleftrightarrow>
                  \<not> fetchedNewBuffers \<and>
                  alloc_calls engineInterface' = alloc_calls engineInterface)) \<and>
            (\<not> converts \<longrightarrow>
               img_mipmaps natImg' = srcLayers \<and>
               alloc_calls engineInterface' = alloc_calls engineInterface) \<and>
            (converts \<longrightarrow>
               (\<forall>n<length srcLayers.
                  alloc_policy engineInterface (alloc_calls engineInterface + n) \<and>
                  copyTexelDataEx env n \<noteq> None) \<and>
               alloc_calls engineInterface' = alloc_calls engineInterface + length srcLayers \<and>
               length (img_mipmaps natImg') = length srcLayers \<and>
               (\<forall>layer\<in>set (img_mipmaps natImg'). next_ptr engineInterface \<le> mip_texels layer) \<and>
               \<not> hasDirectlyAcquired feedbackOut)"
proof -
  define fw where "fw \<longleftrightarrow> nativeTexName = ''Direct3D8'' \<or> nativeTexName = ''Direct3D9''"
  define converts where
    "converts \<longleftrightarrow> fw \<and> nt_compressionType nativeTex = RWCOMPRESS_NONE \<and>
                  \<not> canDirectlyAcquire env nativeTex (nt_layers nativeTex)"
  define R where "R = ReadFromNativeTexture env engineInterface natImg nativeTexName nativeTex"
  define cube where "cube = (if nativeTexName = ''Direct3D9'' then nt_cubeMap nativeTex else False)"
  let ?goal = "case R of
          Inl (e, engineInterface', natImg') \<Rightarrow>
            natImg' = natImg \<and>
            pixels engineInterface' =
              (\<lambda>p. if (fw \<and> nt_isNewlyAllocated nativeTex) \<and>
                       (p \<in> mip_texels ` set (nt_layers nativeTex) \<or> p = nt_paletteData nativeTex)
                    then None else pixels engineInterface p) \<and>
            (\<forall>p\<ge>next_ptr engineInterface. pixels engineInterface' p = None) \<and>
            (converts \<longrightarrow>
               (\<exists>n<length (nt_layers nativeTex).
                  \<not> alloc_policy engineInterface (alloc_calls engineInterface + n) \<and>
                    e = ConversionLayerAllocationFailed \<or>
                  copyTexelDataEx env n = None \<and> e = ConversionFailed))
        | Inr (engineInterface', natImg', feedbackOut) \<Rightarrow>
            (hasDirectlyAcquired feedbackOut \<longleftrightarrow>
               \<not> (fw \<and> nt_isNewlyAllocated nativeTex) \<and> \<not> converts) \<and>
            ((converts \<longrightarrow> nt_layers nativeTex \<noteq> []) \<longrightarrow>
               (hasDirectlyAcquired feedbackOut \<longleftrightarrow>
                  \<not> (fw \<and> nt_isNewlyAllocated nativeTex) \<and>
                  alloc_calls engineInterface' = alloc_calls engineInterface)) \<and>
            (\<not> converts \<longrightarrow>
               img_mipmaps natImg' = nt_layers nativeTex \<and>
               alloc_calls engineInterface' = alloc_calls engineInterface) \<and>
            (converts \<longrightarrow>
               (\<forall>n<length (nt_layers nativeTex).
                  alloc_policy engineInterface (alloc_calls engineInterface + n) \<and>
                  copyTexelDataEx env n \<noteq> None) \<and>
               alloc_calls engineInterface' = alloc_calls engineInterface + length (nt_layers nativeTex) \<and>
               length (img_mipmaps natImg') = length (nt_layers nativeTex) \<and>
               (\<forall>layer\<in>set (img_mipmaps natImg'). next_ptr engineInterface \<le> mip_texels layer) \<and>
               \<not> hasDirectlyAcquired feedbackOut)"
  have ?goal
  proof (cases fw)
    case False
    then have nc: "\<not> converts" by (simp add: converts_def)
    show ?thesis
    proof (cases "nativeTexName = ''PowerVR''")
      case False
      then have "R = Inl (InvalidNativeTextureType, (engineInterface, natImg))"
        using \<open>\<not> fw\<close> unfolding R_def fw_def
        by (intro ReadFromNativeTexture_invalid_name) simp_all
      then show ?thesis using \<open>\<not> fw\<close> nc fresh by simp
    next
      case True
      have d: "case ReadFromNativeTexture_try env natImg False True nativeTex False
                (engineInterface, nt_layers nativeTex, False) of
           Inl (e, ls) \<Rightarrow> ls = (engineInterface, nt_layers nativeTex, False)
         | Inr (engineInterface', natImg', owned') \<Rightarrow>
             engineInterface' = engineInterface \<and> owned' = False \<and>
             img_mipmaps natImg' = nt_layers nativeTex"
        by (rule ReadFromNativeTexture_try_direct) simp_all
      have r: "R = (case ReadFromNativeTexture_try env natImg False True nativeTex False
             (engineInterface, nt_layers nativeTex, False) of
        Inl (e, (engineInterface', layers', owned')) \<Rightarrow>
          Inl (e, ((if owned' then deleteMipmapLayers engineInterface' layers'
                    else engineInterface'), natImg))
      | Inr (engineInterface', natImg', owned') \<Rightarrow>
          Inr (engineInterface', natImg',
               \<lparr> hasDirectlyAcquired = (owned' = False), hasDirectlyAcquiredPalette = False \<rparr>))"
        unfolding R_def True by (rule ReadFromNativeTexture_PowerVR)
      show ?thesis
      proof (cases "ReadFromNativeTexture_try env natImg False True nativeTex False
                (engineInterface, nt_layers nativeTex, False)")
        case (Inl x)
        then show ?thesis using d r \<open>\<not> fw\<close> nc fresh by (cases x) auto
      next
        case (Inr y)
        then show ?thesis using d r \<open>\<not> fw\<close> nc by (cases y) auto
      qed
    qed
  next
    case True
    then have name: "nativeTexName = ''Direct3D8'' \<or> nativeTexName = ''Direct3D9''"
      by (simp add: fw_def)
    define T where "T = ReadFromNativeTexture_try env natImg True False nativeTex cube
                 (engineInterface, nt_layers nativeTex, nt_isNewlyAllocated nativeTex)"
    have r: "R = (case T of
            Inl (e, (engineInterface', layers', owned')) \<Rightarrow>
              Inl (e, ((if owned'
                        then (let freed = deleteMipmapLayers engineInterface' layers'
                              in if nt_paletteData nativeTex \<noteq> 0
                                 then PixelFree freed (nt_paletteData nativeTex) else freed)
                        else engineInterface'), natImg))
          | Inr (engineInterface', natImg', owned') \<Rightarrow>
              Inr ((if nt_isNewlyAllocated nativeTex \<and> nt_paletteData nativeTex \<noteq> 0
                    then PixelFree engineInterface' (nt_paletteData nativeTex)
                    else engineInterface'),
                   natImg',
                   \<lparr> hasDirectlyAcquired = (owned' = False), hasDirectlyAcquiredPalette = False \<rparr>))"
      unfolding R_def T_def cube_def by (rule ReadFromNativeTexture_framework[OF name])
    show ?thesis
    proof (cases converts)
      case False
      then have no: "\<not> (True \<and> nt_compressionType nativeTex = RWCOMPRESS_NONE \<and>
                          \<not> canDirectlyAcquire env nativeTex (nt_layers nativeTex))"
        using True by (simp add: converts_def)
      have d: "case T of
           Inl (e, ls) \<Rightarrow> ls = (engineInterface, nt_layers nativeTex, nt_isNewlyAllocated nativeTex)
         | Inr (engineInterface', natImg', owned') \<Rightarrow>
             engineInterface' = engineInterface \<and> owned' = nt_isNewlyAllocated nativeTex \<and>
             img_mipmaps natImg' = nt_layers nativeTex"
        unfolding T_def by (rule ReadFromNativeTexture_try_direct[OF no]) simp
      note oc = pixels_outer_catch[OF null, where owned = "nt_isNewlyAllocated nativeTex"
                  and layers = "nt_layers nativeTex" and palette = "nt_paletteData nativeTex"]
      show ?thesis
      proof (cases T)
        case (Inl x)
        obtain e ls where x: "x = (e, ls)" by (cases x)
        then have ls: "ls = (engineInterface, nt_layers nativeTex, nt_isNewlyAllocated nativeTex)"
          using d Inl by simp
        have "R = Inl (e, ((if nt_isNewlyAllocated nativeTex
                        then (let freed = deleteMipmapLayers engineInterface (nt_layers nativeTex)
                              in if nt_paletteData nativeTex \<noteq> 0
                                 then PixelFree freed (nt_paletteData nativeTex) else freed)
                        else engineInterface), natImg))"
          by (simp add: r Inl x ls)
        then show ?thesis using oc True False fresh by simp
      next
        case (Inr y)
        obtain eng1 natImg1 owned1 where y: "y = (eng1, natImg1, owned1)" by (cases y)
        then have e: "eng1 = engineInterface" "owned1 = nt_isNewlyAllocated nativeTex"
          "img_mipmaps natImg1 = nt_layers nativeTex"
          using d Inr by simp_all
        have "R = Inr ((if nt_isNewlyAllocated nativeTex \<and> nt_paletteData nativeTex \<noteq> 0
                    then PixelFree engineInterface (nt_paletteData nativeTex)
                    else engineInterface),
                   natImg1,
                   \<lparr> hasDirectlyAcquired = (nt_isNewlyAllocated nativeTex = False),
                     hasDirectlyAcquiredPalette = False \<rparr>)"
          by (simp add: r Inr y e)
        then show ?thesis using True False e(3) by (auto simp: PixelFree_def)
      qed
    next
      case c: True
      then have raw: "nt_compressionType nativeTex = RWCOMPRESS_NONE"
        and cannot: "\<not> canDirectlyAcquire env nativeTex (nt_layers nativeTex)"
        by (simp_all add: converts_def)
      define pf where "pf = fst (getPVRLegacyRawColorFormatLink (nt_rasterFormat nativeTex)
                                (nt_depth nativeTex) (nt_colorOrder nativeTex))"
      define pd where "pd = getPVRLegacyFormatDepth pf"
      define C where "C = convert_to_pvr env (nt_depth nativeTex) (nt_rowAlignment nativeTex) pd
                 (engineInterface, nt_layers nativeTex, nt_isNewlyAllocated nativeTex)"
      have t: "T = (case C of
            Inl e \<Rightarrow> Inl e
          | Inr (engineInterface', layers', owned') \<Rightarrow>
              Inr (engineInterface',
                   write_image natImg layers' pf cube False pd True,
                   owned'))"
        unfolding T_def C_def
        by (rule ReadFromNativeTexture_try_convert[OF TrueI raw cannot pf_def pd_def])
      note run = convert_to_pvr_run[OF null pos fresh, where env = env
                   and d = "nt_depth nativeTex" and a = "nt_rowAlignment nativeTex" and pd = pd
                   and layers = "nt_layers nativeTex" and owned = "nt_isNewlyAllocated nativeTex"
                   and palette = "nt_paletteData nativeTex", folded C_def]
      show ?thesis
      proof (cases C)
        case (Inl x)
        obtain e eng1 layers1 owned1 where x: "x = (e, (eng1, layers1, owned1))"
          by (cases x) auto
        from run Inl x have o: "owned1 = nt_isNewlyAllocated nativeTex"
          and px: "pixels (if nt_isNewlyAllocated nativeTex
                     then (let freed = deleteMipmapLayers eng1 layers1
                           in if nt_paletteData nativeTex \<noteq> 0
                              then PixelFree freed (nt_paletteData nativeTex) else freed)
                     else eng1) =
               (\<lambda>p. if nt_isNewlyAllocated nativeTex \<and>
                        (p \<in> mip_texels ` set (nt_layers nativeTex) \<or> p = nt_paletteData nativeTex)
                     then None else pixels engineInterface p)"
          and lv: "\<exists>n<length (nt_layers nativeTex).
                \<not> alloc_policy engineInterface (alloc_calls engineInterface + n) \<and>
                  e = ConversionLayerAllocationFailed \<or>
                copyTexelDataEx env n = None \<and> e = ConversionFailed"
          by simp_all
        have "R = Inl (e, ((if nt_isNewlyAllocated nativeTex
                     then (let freed = deleteMipmapLayers eng1 layers1
                           in if nt_paletteData nativeTex \<noteq> 0
                              then PixelFree freed (nt_paletteData nativeTex) else freed)
                     else eng1), natImg))"
          by (simp add: r t Inl x o)
        then show ?thesis using px lv True fresh by simp
      next
        case (Inr y)
        obtain eng1 layers1 owned1 where y: "y = (eng1, layers1, owned1)" by (cases y)
        from run Inr y have o: "owned1"
          and ok: "\<forall>n<length (nt_layers nativeTex).
                alloc_policy engineInterface (alloc_calls engineInterface + n) \<and>
                copyTexelDataEx env n \<noteq> None"
          and calls: "alloc_calls eng1 = alloc_calls engineInterface + length (nt_layers nativeTex)"
          and len: "length layers1 = length (nt_layers nativeTex)"
          and new: "\<forall>layer\<in>set layers1. next_ptr engineInterface \<le> mip_texels layer"
          by simp_all
        have "R = Inr ((if nt_isNewlyAllocated nativeTex \<and> nt_paletteData nativeTex \<noteq> 0
                    then PixelFree eng1 (nt_paletteData nativeTex)
                    else eng1),
                   write_image natImg layers1 pf cube False pd True,
                   \<lparr> hasDirectlyAcquired = False, hasDirectlyAcquiredPalette = False \<rparr>)"
          using o by (simp add: r t Inr y)
        moreover have "img_mipmaps (write_image natImg layers1 pf cube False pd True) = layers1"
          by (simp add: write_image_def)
        ultimately show ?thesis using ok calls len new c True
          by (auto simp: PixelFree_def)
      qed
    qed
  qed
  then show ?thesis
    unfolding Let_def R_def converts_def fw_def by simp
qed

lemmas import_unfold =
  ReadFromNativeTexture_def ReadFromNativeTexture_try_def canDirectlyAcquire_def
  convert_to_pvr_def convert_layers.simps convert_layer_def
  getPVRLegacyRawColorFormatLink_def getPVRLegacyFormatDepth_def write_image_def
  deleteMipmapLayers_def default_mipmapLayer_def PixelAllocate_def PixelFree_def
  sample_texture_def sample_import_env_def sample_import_Interface_def
  getPVRNativeImageRasterDataRowSize_def getRasterDataRowSize_def
  getRasterDataSizeByRowSize_def getPVRNativeImageRowAlignment_def ALIGN_SIZE_def
  pixelFormat_defs Let_def

theorem ReadFromNativeTexture_conversion_rollback_witness:
  "pixels (sample_import_Interface (\<lambda>k. k = 0)) 0 = None \<and>
   0 < next_ptr (sample_import_Interface (\<lambda>k. k = 0)) \<and>
   nt_compressionType sample_texture = RWCOMPRESS_NONE \<and>
   \<not> canDirectlyAcquire sample_import_env sample_texture (nt_layers sample_texture) \<and>
   ReadFromNativeTexture sample_import_env (sample_import_Interface (\<lambda>k. k = 0))
       ConstructImage ''Direct3D9'' sample_texture =
     Inl (ConversionLayerAllocationFailed,
          \<lparr> pixels = [3 \<mapsto> [7]], next_ptr = 5, alloc_calls = 2,
            alloc_policy = (\<lambda>k. k = 0), warningLevel = 1, warnings = [] \<rparr>,
          ConstructImage) \<and>
   (\<exists>n<length (nt_layers sample_texture).
      \<not> alloc_policy (sample_import_Interface (\<lambda>k. k = 0))
          (alloc_calls (sample_import_Interface (\<lambda>k. k = 0)) + n)) \<and>
   ReadFromNativeTexture sample_import_env (sample_import_Interface (\<lambda>k. True))
       ConstructImage ''Direct3D9'' sample_texture =
     Inr (\<lparr> pixels = [3 \<mapsto> [7], 4 \<mapsto> [], 5 \<mapsto> []], next_ptr = 6, alloc_calls = 2,
            alloc_policy = (\<lambda>k. True), warningLevel = 1, warnings = [] \<rparr>,
          ConstructImage
            \<lparr> img_mipmaps :=
                [\<lparr> mip_width = 2, mip_height = 2, mip_layerWidth = 2, mip_layerHeight = 2,
                   mip_texels = 4, mip_dataSize = 8 \<rparr>,
                 \<lparr> mip_width = 1, mip_height = 1, mip_layerWidth = 1, mip_layerHeight = 1,
                   mip_texels = 5, mip_dataSize = 2 \<rparr>],
              img_pixelFormat := ARGB_1555_SEC, img_bitDepth := 16, img_isLittleEndian := True \<rparr>,
          \<lparr> hasDirectlyAcquired = False, hasDirectlyAcquiredPalette = False \<rparr>) \<and>
   alloc_calls (sample_import_Interface (\<lambda>k. True)) + length (nt_layers sample_texture) = 2"
proof -
  have null: "pixels (sample_import_Interface policy) 0 = None"
    and pos: "0 < next_ptr (sample_import_Interface policy)"
    and fresh: "\<forall>p\<ge>next_ptr (sample_import_Interface policy).
                  pixels (sample_import_Interface policy) p = None" for policy
    by (simp_all add: sample_import_Interface_def)
  have raw: "nt_compressionType sample_texture = RWCOMPRESS_NONE"
    by (simp add: sample_texture_def)
  have cannot: "\<not> canDirectlyAcquire sample_import_env sample_texture (nt_layers sample_texture)"
    by (simp add: import_unfold)
  have run: "ReadFromNativeTexture sample_import_env (sample_import_Interface (\<lambda>k. k = 0))
       ConstructImage ''Direct3D9'' sample_texture =
     Inl (ConversionLayerAllocationFailed,
          \<lparr> pixels = [3 \<mapsto> [7]], next_ptr = 5, alloc_calls = 2,
            alloc_policy = (\<lambda>k. k = 0), warningLevel = 1, warnings = [] \<rparr>,
          ConstructImage)"
    by (simp add: import_unfold)
  have run2: "ReadFromNativeTexture sample_import_env (sample_import_Interface (\<lambda>k. True))
       ConstructImage ''Direct3D9'' sample_texture =
     Inr (\<lparr> pixels = [3 \<mapsto> [7], 4 \<mapsto> [], 5 \<mapsto> []], next_ptr = 6, alloc_calls = 2,
            alloc_policy = (\<lambda>k. True), warningLevel = 1, warnings = [] \<rparr>,
          ConstructImage
            \<lparr> img_mipmaps :=
                [\<lparr> mip_width = 2, mip_height = 2, mip_layerWidth = 2, mip_layerHeight = 2,
                   mip_texels = 4, mip_dataSize = 8 \<rparr>,
                 \<lparr> mip_width = 1, mip_height = 1, mip_layerWidth = 1, mip_layerHeight = 1,
                   mip_texels = 5, mip_dataSize = 2 \<rparr>],
              img_pixelFormat := ARGB_1555_SEC, img_bitDepth := 16, img_isLittleEndian := True \<rparr>,
          \<lparr> hasDirectlyAcquired = False, hasDirectlyAcquiredPalette = False \<rparr>)"
    by (simp add: import_unfold ConstructImage_def resetFormat_def)
  from ReadFromNativeTexture_conversion_rollback
         [OF null[of "\<lambda>k. k = 0"] pos[of "\<lambda>k. k = 0"] fresh[of "\<lambda>k. k = 0"],
         where env = sample_import_env and natImg = ConstructImage
           and nativeTexName = "''Direct3D9''" and nativeTex = sample_texture]
  have a: "\<exists>n<length (nt_layers sample_texture).
      \<not> alloc_policy (sample_import_Interface (\<lambda>k. k = 0))
          (alloc_calls (sample_import_Interface (\<lambda>k. k = 0)) + n)"
    unfolding run Let_def using raw cannot by simp
  from ReadFromNativeTexture_conversion_rollback
         [OF null[of "\<lambda>k. True"] pos[of "\<lambda>k. True"] fresh[of "\<lambda>k. True"],
         where env = sample_import_env and natImg = ConstructImage
           and nativeTexName = "''Direct3D9''" and nativeTex = sample_texture]
  have b: "alloc_calls (sample_import_Interface (\<lambda>k. True)) + length (nt_layers sample_texture) = 2"
    unfolding run2 Let_def using raw cannot by simp
  from a b show ?thesis using null pos raw cannot run run2 by simp
qed

lemma ReadFromNativeTexture_example_direct:
  "ReadFromNativeTexture sample_import_env (sample_import_Interface (\<lambda>k. True))
       ConstructImage ''PowerVR''
       (sample_texture\<lparr> nt_internalFormat := GL_COMPRESSED_RGBA_PVRTC_4BPPV1_IMG \<rparr>) =
     Inr (sample_import_Interface (\<lambda>k. True),
          ConstructImage
            \<lparr> img_mipmaps := nt_layers sample_texture,
              img_pixelFormat := PVRTC4_SEC, img_hasAlphaChannel_pvrtc := True,
              img_bitDepth := 4, img_isLittleEndian := True \<rparr>,
          \<lparr> hasDirectlyAcquired = True, hasDirectlyAcquiredPalette = False \<rparr>)"
  by (simp add: ReadFromNativeTexture_def ReadFromNativeTexture_try_def write_image_def
        sample_texture_def ConstructImage_def resetFormat_def Let_def)

end
